theory Spec2Isabelle
  imports Complex_Main "HOL-Library.Sublist"
begin

section \<open>Data model\<close>

text \<open>
  The program is \<^verbatim>\<open>Music_Recommender_System.py\<close>. A row of \<^verbatim>\<open>data.csv\<close> carries the
  metadata columns \<^verbatim>\<open>name\<close>, \<^verbatim>\<open>artists\<close>, \<^verbatim>\<open>year\<close> and the numeric columns listed in
  \<^verbatim>\<open>number_cols\<close>. Floating-point numbers are idealised as real numbers; strings are
  byte strings.
\<close>

record song =
  name :: string
  artists :: string
  year :: int
  valence :: real
  acousticness :: real
  danceability :: real
  duration_ms :: real
  energy :: real
  explicit :: real
  instrumentalness :: real
  key :: real
  liveness :: real
  loudness :: real
  mode :: real
  popularity :: real
  speechiness :: real
  tempo :: real

text \<open>\<^verbatim>\<open>song_data[number_cols].values\<close>: the numeric columns in the order of \<^verbatim>\<open>number_cols\<close>.\<close>

definition number_cols :: "(song \<Rightarrow> real) list" where
  "number_cols = [valence, (\<lambda>s. real_of_int (year s)), acousticness, danceability, duration_ms,
     energy, explicit, instrumentalness, key, liveness, loudness, mode, popularity,
     speechiness, tempo]"

definition song_vector :: "song \<Rightarrow> real list" where
  "song_vector song_data = map (\<lambda>col. col song_data) number_cols"

text \<open>A seed song is the dictionary \<^verbatim>\<open>{'name': ...}\<close>.\<close>

datatype seed_song = Seed (seed_name: string)

text \<open>A record of the result: the columns \<^verbatim>\<open>metadata_cols\<close> of a selected row.\<close>

record song_meta =
  meta_name :: string
  meta_artists :: string
  meta_year :: int

definition metadata_cols :: "song \<Rightarrow> song_meta" where
  "metadata_cols row = \<lparr>meta_name = name row, meta_artists = artists row, meta_year = year row\<rparr>"

datatype error = ValueError | KeyError | IndexError | DivisionByZero

section \<open>Strings\<close>

text \<open>\<^verbatim>\<open>str.lower\<close> on the ASCII letters.\<close>

definition char_lower :: "char \<Rightarrow> char" where
  "char_lower c =
     (case map_of (zip ''ABCDEFGHIJKLMNOPQRSTUVWXYZ'' ''abcdefghijklmnopqrstuvwxyz'') c of
        None \<Rightarrow> c
      | Some l \<Rightarrow> l)"

definition str_lower :: "string \<Rightarrow> string" where
  "str_lower s = map char_lower s"

section \<open>Catalog lookup\<close>

text \<open>
  \<^verbatim>\<open>data[data['name'].str.lower() == name].iloc[0]\<close>: the rows whose lowercased name equals
  the argument, as it is passed; \<^verbatim>\<open>iloc[0]\<close> raises IndexError on an empty selection, which
  the function catches and turns into \<^verbatim>\<open>None\<close>.
\<close>

definition get_song_data :: "string \<Rightarrow> song list \<Rightarrow> song option" where
  "get_song_data nm data =
     (case filter (\<lambda>row. str_lower (name row) = nm) data of
        [] \<Rightarrow> None
      | row # _ \<Rightarrow> Some row)"


section \<open>Aggregating the seed songs\<close>

text \<open>
  The loop of \<^verbatim>\<open>get_mean_vector\<close>. It stops at the first seed that the catalog does not
  hold, prints a warning and returns \<^verbatim>\<open>None\<close>. The second component is what the call
  prints.
\<close>

fun seed_vectors :: "seed_song list \<Rightarrow> song list \<Rightarrow> real list list \<Rightarrow> real list list option \<times> string list" where
  "seed_vectors [] data song_vectors = (Some song_vectors, [])"
| "seed_vectors (song # rest) data song_vectors =
     (case get_song_data (seed_name song) data of
        None \<Rightarrow> (None, [''Warning: '' @ seed_name song @ '' does not exist in the dataset''])
      | Some song_data \<Rightarrow> seed_vectors rest data (song_vectors @ [song_vector song_data]))"

text \<open>
  \<^verbatim>\<open>np.mean(song_matrix, axis=0)\<close>: the mean of every column. Of no rows at all numpy
  returns a scalar nan and not a row; the model returns the empty row, which the scalers
  reject as they reject the scalar.
\<close>

definition column :: "real list list \<Rightarrow> nat \<Rightarrow> real list" where
  "column X j = map (\<lambda>row. row ! j) X"

definition mean :: "real list \<Rightarrow> real" where
  "mean xs = sum_list xs / real (length xs)"

definition np_mean :: "real list list \<Rightarrow> real list" where
  "np_mean X = (case X of [] \<Rightarrow> [] | row # _ \<Rightarrow> map (\<lambda>j. mean (column X j)) [0..<length row])"

definition get_mean_vector :: "seed_song list \<Rightarrow> song list \<Rightarrow> real list option \<times> string list" where
  "get_mean_vector song_list data =
     (case seed_vectors song_list data [] of
        (None, out) \<Rightarrow> (None, out)
      | (Some song_matrix, out) \<Rightarrow> (Some (np_mean song_matrix), out))"

section \<open>The two scalers\<close>

text \<open>
  Modelled from the spec: \<^verbatim>\<open>MinMaxScaler\<close> and \<^verbatim>\<open>StandardScaler\<close> are classes of
  scikit-learn, which is not part of the repository. The range scaler learns the minimum
  and maximum of every column and maps the column to [0,1]; the standard scaler learns the
  mean and the standard deviation of every column of the range-scaled rows. A column of
  zero range, or of zero deviation, is divided by 1 instead, so it collapses to 0. Every
  division is checked, so that a division by zero is an error of the model and not HOL's
  \<open>x / 0 = 0\<close>. A row of the wrong width and a matrix without rows are rejected.
\<close>

definition divide_checked :: "real \<Rightarrow> real \<Rightarrow> error + real" where
  "divide_checked a b = (if b = 0 then Inl DivisionByZero else Inr (a / b))"

fun collect :: "(error + 'a) list \<Rightarrow> error + 'a list" where
  "collect [] = Inr []"
| "collect (r # rs) =
     (case r of
        Inl e \<Rightarrow> Inl e
      | Inr x \<Rightarrow> (case collect rs of Inl e \<Rightarrow> Inl e | Inr xs \<Rightarrow> Inr (x # xs)))"

definition handle_zeros_in_scale :: "real \<Rightarrow> real" where
  "handle_zeros_in_scale s = (if s = 0 then 1 else s)"

record MinMaxScaler =
  mm_scale :: "real list"
  mm_min :: "real list"

record StandardScaler =
  ss_mean :: "real list"
  ss_scale :: "real list"

definition mm_fit :: "real list list \<Rightarrow> error + MinMaxScaler" where
  "mm_fit X =
     (case X of
        [] \<Rightarrow> Inl ValueError
      | row # _ \<Rightarrow>
          (let cols = map (column X) [0..<length row];
               data_min = map (\<lambda>c. Min (set c)) cols;
               data_max = map (\<lambda>c. Max (set c)) cols;
               data_range = map2 (\<lambda>hi lo. hi - lo) data_max data_min
           in case collect (map (\<lambda>r. divide_checked 1 (handle_zeros_in_scale r)) data_range) of
                Inl e \<Rightarrow> Inl e
              | Inr scale \<Rightarrow>
                  Inr \<lparr>mm_scale = scale, mm_min = map2 (\<lambda>lo s. 0 - lo * s) data_min scale\<rparr>))"

definition mm_transform :: "MinMaxScaler \<Rightarrow> real list \<Rightarrow> error + real list" where
  "mm_transform sc x =
     (if length x \<noteq> length (mm_scale sc) then Inl ValueError
      else Inr (map2 (\<lambda>v (s, m). v * s + m) x (zip (mm_scale sc) (mm_min sc))))"

definition variance :: "real list \<Rightarrow> real" where
  "variance xs = mean (map (\<lambda>x. (x - mean xs)\<^sup>2) xs)"

definition ss_fit :: "real list list \<Rightarrow> error + StandardScaler" where
  "ss_fit X =
     (case X of
        [] \<Rightarrow> Inl ValueError
      | row # _ \<Rightarrow>
          (let cols = map (column X) [0..<length row]
           in Inr \<lparr>ss_mean = map mean cols,
                   ss_scale = map (\<lambda>c. handle_zeros_in_scale (sqrt (variance c))) cols\<rparr>))"

definition ss_transform :: "StandardScaler \<Rightarrow> real list \<Rightarrow> error + real list" where
  "ss_transform sc x =
     (if length x \<noteq> length (ss_mean sc) then Inl ValueError
      else collect (map2 (\<lambda>v (m, s). divide_checked (v - m) s) x (zip (ss_mean sc) (ss_scale sc))))"

definition mm_fit_transform :: "real list list \<Rightarrow> error + MinMaxScaler \<times> real list list" where
  "mm_fit_transform X =
     (case mm_fit X of
        Inl e \<Rightarrow> Inl e
      | Inr sc \<Rightarrow> (case collect (map (mm_transform sc) X) of Inl e \<Rightarrow> Inl e | Inr Y \<Rightarrow> Inr (sc, Y)))"

definition ss_fit_transform :: "real list list \<Rightarrow> error + StandardScaler \<times> real list list" where
  "ss_fit_transform X =
     (case ss_fit X of
        Inl e \<Rightarrow> Inl e
      | Inr sc \<Rightarrow> (case collect (map (ss_transform sc) X) of Inl e \<Rightarrow> Inl e | Inr Y \<Rightarrow> Inr (sc, Y)))"

section \<open>The state of the module\<close>

text \<open>
  The module-level statements after \<^verbatim>\<open>recommend_songs\<close>: both scalers are fitted once on
  the catalog, and the scaled catalog is kept. \<^verbatim>\<open>recommend_songs\<close> reads these three
  globals.
\<close>

record globals =
  min_max_scaler :: MinMaxScaler
  standard_scaler :: StandardScaler
  scaled_normalized_data :: "real list list"

definition fit_globals :: "song list \<Rightarrow> error + globals" where
  "fit_globals data =
     (case mm_fit_transform (map song_vector data) of
        Inl e \<Rightarrow> Inl e
      | Inr (mm, normalized_data) \<Rightarrow>
          (case ss_fit_transform normalized_data of
             Inl e \<Rightarrow> Inl e
           | Inr (ss, scaled) \<Rightarrow>
               Inr \<lparr>min_max_scaler = mm, standard_scaler = ss, scaled_normalized_data = scaled\<rparr>))"

section \<open>Recommendation\<close>

text \<open>The song center after \<^verbatim>\<open>min_max_scaler.transform\<close> and \<^verbatim>\<open>standard_scaler.transform\<close>.\<close>

definition scaled_normalized_song_center :: "globals \<Rightarrow> real list \<Rightarrow> error + real list" where
  "scaled_normalized_song_center g song_center =
     (case mm_transform (min_max_scaler g) song_center of
        Inl e \<Rightarrow> Inl e
      | Inr normalized_song_center \<Rightarrow> ss_transform (standard_scaler g) normalized_song_center)"

definition euclidean :: "real list \<Rightarrow> real list \<Rightarrow> real" where
  "euclidean u v = sqrt (sum_list (map2 (\<lambda>a b. (a - b)\<^sup>2) u v))"

text \<open>\<^verbatim>\<open>cdist\<close> of one row against a matrix; scipy rejects rows of another width.\<close>

definition cdist :: "real list \<Rightarrow> real list list \<Rightarrow> error + real list" where
  "cdist u XB =
     (if list_all (\<lambda>row. length row = length u) XB then Inr (map (euclidean u) XB)
      else Inl ValueError)"

text \<open>
  \<^verbatim>\<open>np.argsort\<close>: the positions in ascending order of their values. Among equal values
  numpy's order is that of its sorting routine; the model keeps their original order.
\<close>

definition argsort :: "real list \<Rightarrow> nat list" where
  "argsort ds = sort_key (\<lambda>i. ds ! i) [0..<length ds]"

text \<open>
  The selection loop. \<^verbatim>\<open>data.iloc[i]\<close> raises IndexError beyond the last row. The names
  are compared as they are stored and as they were passed.
\<close>

fun select_songs :: "nat list \<Rightarrow> song list \<Rightarrow> seed_song list \<Rightarrow> int \<Rightarrow> song list \<Rightarrow> error + song list" where
  "select_songs [] data seed_songs n rec_songs = Inr rec_songs"
| "select_songs (i # index) data seed_songs n rec_songs =
     (if length data \<le> i then Inl IndexError
      else if name (data ! i) \<notin> set (map seed_name seed_songs) \<and>
              name (data ! i) \<notin> set (map name rec_songs)
      then (if int (length (rec_songs @ [data ! i])) = n then Inr (rec_songs @ [data ! i])
            else select_songs index data seed_songs n (rec_songs @ [data ! i]))
      else select_songs index data seed_songs n rec_songs)"

text \<open>
  \<^verbatim>\<open>pd.DataFrame(rec_songs)[metadata_cols].to_dict(orient='records')\<close>. A frame built from
  no rows has no columns, and selecting \<^verbatim>\<open>metadata_cols\<close> from it raises KeyError.
\<close>

definition to_records :: "song list \<Rightarrow> error + song_meta list" where
  "to_records rec_songs = (if rec_songs = [] then Inl KeyError else Inr (map metadata_cols rec_songs))"

definition recommend_songs ::
  "seed_song list \<Rightarrow> song list \<Rightarrow> int \<Rightarrow> globals \<Rightarrow> (error + song_meta list) \<times> string list" where
  "recommend_songs seed_songs data n_recommendations g =
     (case get_mean_vector seed_songs data of
        (None, out) \<Rightarrow> (Inr [], out)
      | (Some song_center, out) \<Rightarrow>
          (case scaled_normalized_song_center g song_center of
             Inl e \<Rightarrow> (Inl e, out)
           | Inr center \<Rightarrow>
               (case cdist center (scaled_normalized_data g) of
                  Inl e \<Rightarrow> (Inl e, out)
                | Inr distances \<Rightarrow>
                    (case select_songs (argsort distances) data seed_songs n_recommendations [] of
                       Inl e \<Rightarrow> (Inl e, out)
                     | Inr rec_songs \<Rightarrow> (to_records rec_songs, out)))))"

text \<open>
  The handler of the button: the names typed by the user are lowercased, blank names are
  dropped, and \<^verbatim>\<open>recommend_songs\<close> is called only with at least one seed. The slider
  offers between 1 and 30 recommendations.
\<close>

definition seeds_of_input :: "string list \<Rightarrow> seed_song list" where
  "seeds_of_input input_song_names =
     filter (\<lambda>song. seed_name song \<noteq> []) (map (\<lambda>nm. Seed (str_lower nm)) input_song_names)"

text \<open>
  The same function as a transformer of the state of the running module: the catalog, the
  fitted globals and the text printed so far. Every statement of the source takes the
  state and returns the state it leaves: \<^verbatim>\<open>print\<close> appends a line, the lookups read the
  catalog passed as \<^verbatim>\<open>data\<close>, and the scalers and the scaled catalog are read from the
  globals at the moment they are used.
\<close>

record world =
  catalog :: "song list"
  fitted :: globals
  stdout :: "string list"

definition print_line :: "string \<Rightarrow> world \<Rightarrow> world" where
  "print_line s w = w\<lparr>stdout := stdout w @ [s]\<rparr>"

fun seed_vectors_st ::
  "seed_song list \<Rightarrow> song list \<Rightarrow> real list list \<Rightarrow> world \<Rightarrow> real list list option \<times> world" where
  "seed_vectors_st [] data song_vectors w = (Some song_vectors, w)"
| "seed_vectors_st (song # rest) data song_vectors w =
     (case get_song_data (seed_name song) data of
        None \<Rightarrow>
          (None, print_line (''Warning: '' @ seed_name song @ '' does not exist in the dataset'') w)
      | Some song_data \<Rightarrow> seed_vectors_st rest data (song_vectors @ [song_vector song_data]) w)"

definition get_mean_vector_st :: "seed_song list \<Rightarrow> song list \<Rightarrow> world \<Rightarrow> real list option \<times> world" where
  "get_mean_vector_st song_list data w =
     (case seed_vectors_st song_list data [] w of
        (None, w') \<Rightarrow> (None, w')
      | (Some song_matrix, w') \<Rightarrow> (Some (np_mean song_matrix), w'))"

definition recommend_songs_st ::
  "seed_song list \<Rightarrow> song list \<Rightarrow> int \<Rightarrow> world \<Rightarrow> (error + song_meta list) \<times> world" where
  "recommend_songs_st seed_songs data n_recommendations w =
     (case get_mean_vector_st seed_songs data w of
        (None, w1) \<Rightarrow> (Inr [], w1)
      | (Some song_center, w1) \<Rightarrow>
          (case scaled_normalized_song_center (fitted w1) song_center of
             Inl e \<Rightarrow> (Inl e, w1)
           | Inr center \<Rightarrow>
               (case cdist center (scaled_normalized_data (fitted w1)) of
                  Inl e \<Rightarrow> (Inl e, w1)
                | Inr distances \<Rightarrow>
                    (case select_songs (argsort distances) data seed_songs n_recommendations [] of
                       Inl e \<Rightarrow> (Inl e, w1)
                     | Inr rec_songs \<Rightarrow> (to_records rec_songs, w1)))))"

text \<open>The call of the button handler: \<^verbatim>\<open>recommend_songs(seed_songs, data, n_recommendations)\<close>.\<close>

definition call_recommend :: "seed_song list \<Rightarrow> int \<Rightarrow> world \<Rightarrow> (error + song_meta list) \<times> world" where
  "call_recommend seed_songs n w = recommend_songs_st seed_songs (catalog w) n w"

section \<open>Example catalogs\<close>

text \<open>
  Four tracks that differ in valence, energy and tempo only; every other numeric column is
  constant. The second catalog holds the same rows under names that differ in case.
\<close>

definition track :: "string \<Rightarrow> real \<Rightarrow> real \<Rightarrow> real \<Rightarrow> song" where
  "track nm v e t = \<lparr>name = nm, artists = ''various'', year = 2000, valence = v, acousticness = 0,
     danceability = 0, duration_ms = 0, energy = e, explicit = 0, instrumentalness = 0, key = 0,
     liveness = 0, loudness = 0, mode = 0, popularity = 0, speechiness = 0, tempo = t\<rparr>"

definition lower_catalog :: "song list" where
  "lower_catalog = [track ''a'' 0 0 0, track ''b'' 0 0 1, track ''c'' 1 1 0, track ''d'' 1 1 1]"

definition mixed_catalog :: "song list" where
  "mixed_catalog =
     [track ''Hello'' 0 0 0, track ''hello'' 0 0 1, track ''World'' 1 1 0, track ''x'' 1 1 1]"

definition meta :: "string \<Rightarrow> song_meta" where
  "meta nm = \<lparr>meta_name = nm, meta_artists = ''various'', meta_year = 2000\<rparr>"

text \<open>The globals that the module computes from either catalog.\<close>

definition example_globals :: globals where
  "example_globals =
     \<lparr>min_max_scaler =
        \<lparr>mm_scale = [1, 1, 1, 1, 1, 1, 1, 1, 1, 1, 1, 1, 1, 1, 1],
         mm_min = [0, - 2000, 0, 0, 0, 0, 0, 0, 0, 0, 0, 0, 0, 0, 0]\<rparr>,
      standard_scaler =
        \<lparr>ss_mean = [1 / 2, 0, 0, 0, 0, 1 / 2, 0, 0, 0, 0, 0, 0, 0, 0, 1 / 2],
         ss_scale = [1 / 2, 1, 1, 1, 1, 1 / 2, 1, 1, 1, 1, 1, 1, 1, 1, 1 / 2]\<rparr>,
      scaled_normalized_data =
        [[- 1, 0, 0, 0, 0, - 1, 0, 0, 0, 0, 0, 0, 0, 0, - 1],
         [- 1, 0, 0, 0, 0, - 1, 0, 0, 0, 0, 0, 0, 0, 0, 1],
         [1, 0, 0, 0, 0, 1, 0, 0, 0, 0, 0, 0, 0, 0, - 1],
         [1, 0, 0, 0, 0, 1, 0, 0, 0, 0, 0, 0, 0, 0, 1]]\<rparr>"

section \<open>Auxiliary facts\<close>

lemma collect_Inr_iff: "collect rs = Inr xs \<longleftrightarrow> rs = map Inr xs"
proof (induction rs arbitrary: xs)
  case Nil
  then show ?case by auto
next
  case (Cons r rs)
  show ?case
  proof (cases r)
    case (Inl e)
    then show ?thesis by (cases xs) auto
  next
    case (Inr a)
    have "collect (r # rs) = Inr xs \<longleftrightarrow> (\<exists>ys. collect rs = Inr ys \<and> xs = a # ys)"
      using Inr by (auto split: sum.splits)
    also have "\<dots> \<longleftrightarrow> (\<exists>ys. rs = map Inr ys \<and> xs = a # ys)"
      using Cons.IH by simp
    also have "\<dots> \<longleftrightarrow> r # rs = map Inr xs"
      using Inr by (cases xs) auto
    finally show ?thesis .
  qed
qed

lemma collect_map_Inr: "collect (map (\<lambda>x. Inr (f x)) xs) = Inr (map f xs)"
  by (simp add: collect_Inr_iff)

lemma get_song_data_None_iff:
  "get_song_data nm data = None \<longleftrightarrow> (\<forall>row\<in>set data. str_lower (name row) \<noteq> nm)"
proof -
  have "get_song_data nm data = None \<longleftrightarrow> filter (\<lambda>row. str_lower (name row) = nm) data = []"
    by (simp add: get_song_data_def split: list.splits)
  then show ?thesis by (simp add: filter_empty_conv)
qed

lemma get_song_data_SomeD:
  assumes "get_song_data nm data = Some r"
  shows "\<exists>i<length data. data ! i = r \<and> str_lower (name r) = nm \<and>
           (\<forall>j<i. str_lower (name (data ! j)) \<noteq> nm)"
proof -
  from assms obtain rest where "filter (\<lambda>row. str_lower (name row) = nm) data = r # rest"
    by (auto simp: get_song_data_def split: list.splits)
  then obtain us vs where d: "data = us @ r # vs" and u: "\<forall>u\<in>set us. str_lower (name u) \<noteq> nm"
    and r: "str_lower (name r) = nm"
    by (auto simp: filter_eq_Cons_iff)
  have "data ! length us = r" using d by simp
  moreover have "\<forall>j<length us. str_lower (name (data ! j)) \<noteq> nm"
    using d u by (simp add: nth_append)
  moreover have "length us < length data" using d by simp
  ultimately show ?thesis using r by blast
qed

lemma seed_vectors_unresolved:
  "\<exists>s\<in>set seeds. get_song_data (seed_name s) data = None \<Longrightarrow> fst (seed_vectors seeds data acc) = None"
  by (induction seeds arbitrary: acc) (auto split: option.splits)

lemma seed_vectors_resolved:
  "\<forall>s\<in>set seeds. get_song_data (seed_name s) data \<noteq> None \<Longrightarrow>
   seed_vectors seeds data acc =
     (Some (acc @ map (\<lambda>s. song_vector (the (get_song_data (seed_name s) data))) seeds), [])"
  by (induction seeds arbitrary: acc) (auto split: option.splits)

lemma select_songs_subseq:
  "select_songs index data seeds n acc = Inr res \<Longrightarrow>
   \<exists>js. subseq js index \<and> res = acc @ map (\<lambda>i. data ! i) js \<and> (\<forall>j\<in>set js. j < length data)"
proof (induction index arbitrary: acc)
  case Nil
  then show ?case by auto
next
  case (Cons i index)
  show ?case
  proof (cases "name (data ! i) \<notin> set (map seed_name seeds) \<and> name (data ! i) \<notin> set (map name acc)")
    case True
    note sel = True
    from Cons.prems have lt: "i < length data" by (auto split: if_splits)
    show ?thesis
    proof (cases "int (length (acc @ [data ! i])) = n")
      case True
      with Cons.prems sel lt have "res = acc @ map (\<lambda>i. data ! i) [i]" by auto
      moreover have "subseq [i] (i # index)" by simp
      ultimately show ?thesis using lt by (metis empty_iff empty_set set_ConsD)
    next
      case False
      with Cons.prems sel lt have "select_songs index data seeds n (acc @ [data ! i]) = Inr res"
        by auto
      from Cons.IH[OF this] obtain js where js: "subseq js index"
        "res = (acc @ [data ! i]) @ map (\<lambda>i. data ! i) js" "\<forall>j\<in>set js. j < length data" by blast
      then have "subseq (i # js) (i # index)" "res = acc @ map (\<lambda>i. data ! i) (i # js)"
        "\<forall>j\<in>set (i # js). j < length data" using lt by auto
      then show ?thesis by blast
    qed
  next
    case False
    with Cons.prems have "select_songs index data seeds n acc = Inr res"
      by (auto split: if_splits)
    from Cons.IH[OF this] obtain js where js: "subseq js index"
        "res = acc @ map (\<lambda>i. data ! i) js" "\<forall>j\<in>set js. j < length data" by blast
    then have "subseq js (i # index)" by auto
    with js show ?thesis by blast
  qed
qed

lemma select_songs_names:
  "select_songs index data seeds n acc = Inr res \<Longrightarrow>
   distinct (map name acc) \<Longrightarrow> (\<forall>r\<in>set acc. name r \<notin> set (map seed_name seeds)) \<Longrightarrow>
   distinct (map name res) \<and> (\<forall>r\<in>set res. name r \<notin> set (map seed_name seeds))"
proof (induction index arbitrary: acc)
  case Nil
  then show ?case by auto
next
  case (Cons i index)
  show ?case
  proof (cases "name (data ! i) \<notin> set (map seed_name seeds) \<and> name (data ! i) \<notin> set (map name acc)")
    case True
    note sel = True
    from Cons.prems have lt: "i < length data" by (auto split: if_splits)
    have d: "distinct (map name (acc @ [data ! i]))"
      and s: "\<forall>r\<in>set (acc @ [data ! i]). name r \<notin> set (map seed_name seeds)"
      using sel Cons.prems(2,3) by auto
    show ?thesis
    proof (cases "int (length (acc @ [data ! i])) = n")
      case True
      with Cons.prems(1) sel lt have "res = acc @ [data ! i]" by auto
      with d s show ?thesis by blast
    next
      case False
      with Cons.prems(1) sel lt have "select_songs index data seeds n (acc @ [data ! i]) = Inr res"
        by auto
      from Cons.IH[OF this d s] show ?thesis .
    qed
  next
    case False
    with Cons.prems have "select_songs index data seeds n acc = Inr res"
      by (auto split: if_splits)
    from Cons.IH[OF this Cons.prems(2,3)] show ?thesis .
  qed
qed

lemma select_songs_length:
  "select_songs index data seeds n acc = Inr res \<Longrightarrow> int (length acc) < n \<Longrightarrow> int (length res) \<le> n"
proof (induction index arbitrary: acc)
  case Nil
  then show ?case by auto
next
  case (Cons i index)
  show ?case
  proof (cases "name (data ! i) \<notin> set (map seed_name seeds) \<and> name (data ! i) \<notin> set (map name acc)")
    case True
    note sel = True
    from Cons.prems have lt: "i < length data" by (auto split: if_splits)
    show ?thesis
    proof (cases "int (length (acc @ [data ! i])) = n")
      case True
      with Cons.prems(1) sel lt have "res = acc @ [data ! i]" by auto
      with True show ?thesis by simp
    next
      case False
      with Cons.prems(1) sel lt have "select_songs index data seeds n (acc @ [data ! i]) = Inr res"
        by auto
      moreover have "int (length (acc @ [data ! i])) < n" using False Cons.prems(2) by auto
      ultimately show ?thesis by (rule Cons.IH)
    qed
  next
    case False
    with Cons.prems have "select_songs index data seeds n acc = Inr res"
      by (auto split: if_splits)
    from Cons.IH[OF this Cons.prems(2)] show ?thesis .
  qed
qed

lemma select_songs_total:
  "\<forall>i\<in>set index. i < length data \<Longrightarrow> \<exists>res. select_songs index data seeds n acc = Inr res"
  by (induction index arbitrary: acc) auto

lemma select_songs_unbounded:
  "n \<le> 0 \<Longrightarrow> int (length acc) + int (length index) < m \<Longrightarrow>
   select_songs index data seeds n acc = select_songs index data seeds m acc"
  by (induction index arbitrary: acc) auto

lemma select_songs_nonempty:
  "select_songs index data seeds n acc = Inr res \<Longrightarrow>
   \<exists>i\<in>set index. name (data ! i) \<notin> set (map seed_name seeds) \<Longrightarrow> res \<noteq> []"
proof (induction index arbitrary: acc)
  case Nil
  then show ?case by auto
next
  case (Cons i index)
  from select_songs_subseq[OF Cons.prems(1)] have grow: "acc \<noteq> [] \<Longrightarrow> res \<noteq> []" by auto
  from Cons.prems have lt: "i < length data" by (auto split: if_splits)
  show ?case
  proof (cases "name (data ! i) \<notin> set (map seed_name seeds)")
    case True
    show ?thesis
    proof (cases "name (data ! i) \<notin> set (map name acc)")
      case False
      then have "acc \<noteq> []" by auto
      then show ?thesis by (rule grow)
    next
      case fresh: True
      show ?thesis
      proof (cases "int (length (acc @ [data ! i])) = n")
        case True
        with Cons.prems(1) \<open>name (data ! i) \<notin> set (map seed_name seeds)\<close> fresh lt show ?thesis by auto
      next
        case False
        with Cons.prems(1) \<open>name (data ! i) \<notin> set (map seed_name seeds)\<close> fresh lt
        have "select_songs index data seeds n (acc @ [data ! i]) = Inr res" by auto
        from select_songs_subseq[OF this] show ?thesis by auto
      qed
    qed
  next
    case False
    with Cons.prems have "select_songs index data seeds n acc = Inr res"
      "\<exists>i\<in>set index. name (data ! i) \<notin> set (map seed_name seeds)"
      by (auto split: if_splits)
    then show ?thesis by (rule Cons.IH)
  qed
qed

subsection \<open>Evaluation on the example catalogs\<close>

lemma song_vector_track:
  "song_vector (track nm v e t) = [v, 2000, 0, 0, 0, e, 0, 0, 0, 0, 0, 0, 0, 0, t]"
  by (simp add: song_vector_def number_cols_def track_def)

lemma name_track: "name (track nm v e t) = nm"
  by (simp add: track_def)

lemma metadata_track: "metadata_cols (track nm v e t) = meta nm"
  by (simp add: track_def metadata_cols_def meta_def)

lemma upt_15: "[0..<15] = [0, 1, 2, 3, 4, 5, 6, 7, 8, 9, 10, 11, 12, 13, 14]"
  by (simp add: upt_rec)

lemmas lookup_eval = get_song_data_def str_lower_def char_lower_def name_track

section \<open>Catalog lookup: first match on the lowercased stored names\<close>

text \<open>
  C6, as the code has it: the lookup compares the name it is given, unchanged, with the
  lowercased stored names (the callers lowercase the name before the call). It returns
  \<open>None\<close> exactly when no stored name matches, and otherwise the first matching row in
  storage order.
\<close>

theorem lookup_first_match:
  "(get_song_data nm data = None \<longleftrightarrow> (\<forall>row\<in>set data. str_lower (name row) \<noteq> nm)) \<and>
   (\<forall>r. get_song_data nm data = Some r \<longrightarrow>
      (\<exists>i<length data. data ! i = r \<and> str_lower (name (data ! i)) = nm \<and>
         (\<forall>j<i. str_lower (name (data ! j)) \<noteq> nm)))"
proof (intro conjI allI impI)
  show "get_song_data nm data = None \<longleftrightarrow> (\<forall>row\<in>set data. str_lower (name row) \<noteq> nm)"
    by (rule get_song_data_None_iff)
next
  fix r
  assume "get_song_data nm data = Some r"
  from get_song_data_SomeD[OF this]
  show "\<exists>i<length data. data ! i = r \<and> str_lower (name (data ! i)) = nm \<and>
          (\<forall>j<i. str_lower (name (data ! j)) \<noteq> nm)"
    by auto
qed

theorem lookup_first_match_witness:
  "get_song_data ''hello'' mixed_catalog = Some (track ''Hello'' 0 0 0) \<and>
   (\<exists>i<length mixed_catalog. mixed_catalog ! i = track ''Hello'' 0 0 0 \<and>
      str_lower (name (mixed_catalog ! i)) = ''hello'' \<and>
      (\<forall>j<i. str_lower (name (mixed_catalog ! j)) \<noteq> ''hello''))"
proof -
  have found: "get_song_data ''hello'' mixed_catalog = Some (track ''Hello'' 0 0 0)"
    by (simp add: mixed_catalog_def lookup_eval)
  with lookup_first_match[of "''hello''" mixed_catalog] show ?thesis
    by blast
qed

text \<open>
  C6 as stated fails: the name \<open>Hello\<close> equals the first stored name once both are
  lowercased, and the lookup of \<open>Hello\<close> finds nothing.
\<close>

theorem lookup_not_lowercased_counterexample:
  "str_lower ''Hello'' = str_lower (name (mixed_catalog ! 0)) \<and>
   get_song_data ''Hello'' mixed_catalog = None"
  by (simp add: mixed_catalog_def lookup_eval)

section \<open>An unresolvable seed empties the result\<close>

lemma get_mean_vector_unresolved:
  assumes "\<exists>s\<in>set seed_songs. get_song_data (seed_name s) data = None"
  shows "fst (get_mean_vector seed_songs data) = None"
proof -
  from assms have "fst (seed_vectors seed_songs data []) = None"
    by (rule seed_vectors_unresolved)
  then show ?thesis
    by (cases "seed_vectors seed_songs data []") (simp add: get_mean_vector_def)
qed

text \<open>
  C3: when at least one seed name has no match in the catalog, \<^verbatim>\<open>recommend_songs\<close> returns
  the empty list, whatever the other seeds, the requested count and the fitted globals.
\<close>

theorem unresolved_seed_empty_result:
  assumes "\<exists>s\<in>set seed_songs. get_song_data (seed_name s) data = None"
  shows "fst (recommend_songs seed_songs data n g) = Inr []"
proof -
  from assms have "fst (get_mean_vector seed_songs data) = None"
    by (rule get_mean_vector_unresolved)
  then show ?thesis
    by (cases "get_mean_vector seed_songs data") (simp add: recommend_songs_def)
qed

theorem unresolved_seed_empty_result_witness:
  "get_song_data ''unknown-song'' lower_catalog = None \<and>
   get_song_data ''a'' lower_catalog = Some (track ''a'' 0 0 0) \<and>
   fst (recommend_songs [Seed ''a'', Seed ''unknown-song''] lower_catalog 3 example_globals) = Inr []"
proof -
  have miss: "get_song_data ''unknown-song'' lower_catalog = None"
    by (simp add: lower_catalog_def lookup_eval)
  have hit: "get_song_data ''a'' lower_catalog = Some (track ''a'' 0 0 0)"
    by (simp add: lower_catalog_def lookup_eval)
  have "\<exists>s\<in>set [Seed ''a'', Seed ''unknown-song'']. get_song_data (seed_name s) lower_catalog = None"
    using miss by simp
  from unresolved_seed_empty_result[OF this, of 3 example_globals] miss hit show ?thesis
    by simp
qed

section \<open>The fitted scalers\<close>

lemma length_song_vector: "length (song_vector s) = 15"
  by (simp add: song_vector_def number_cols_def)

lemma handle_zeros_nonzero: "handle_zeros_in_scale s \<noteq> 0"
  by (simp add: handle_zeros_in_scale_def)

lemma map2_index:
  assumes "length xs = length ys"
  shows "map2 f xs ys = map (\<lambda>j. f (xs ! j) (ys ! j)) [0..<length xs]"
proof (rule nth_equalityI)
  show "length (map2 f xs ys) = length (map (\<lambda>j. f (xs ! j) (ys ! j)) [0..<length xs])"
    using assms by simp
next
  fix i
  assume "i < length (map2 f xs ys)"
  then show "map2 f xs ys ! i = map (\<lambda>j. f (xs ! j) (ys ! j)) [0..<length xs] ! i"
    using assms by simp
qed

lemma collect_total:
  assumes "\<forall>x\<in>set xs. \<exists>y. f x = Inr y"
  shows "\<exists>ys. collect (map f xs) = Inr ys"
proof -
  have "map f xs = map Inr (map (\<lambda>x. projr (f x)) xs)"
    using assms by auto
  then show ?thesis by (simp only: collect_Inr_iff) blast
qed

lemma collect_map_nth:
  assumes "collect (map f xs) = Inr ys"
  shows "length ys = length xs" and "j < length xs \<Longrightarrow> f (xs ! j) = Inr (ys ! j)"
proof -
  from assms have eq: "map f xs = map Inr ys" by (simp add: collect_Inr_iff)
  then show len: "length ys = length xs" by (metis length_map)
  assume "j < length xs"
  with eq len show "f (xs ! j) = Inr (ys ! j)" by (metis nth_map)
qed

lemma mm_fit_Cons:
  "mm_fit (row # rest) =
     Inr \<lparr>mm_scale = map (\<lambda>j. 1 / handle_zeros_in_scale
                       (Max (set (column (row # rest) j)) - Min (set (column (row # rest) j))))
                     [0..<length row],
          mm_min = map (\<lambda>j. 0 - Min (set (column (row # rest) j)) *
                       (1 / handle_zeros_in_scale
                         (Max (set (column (row # rest) j)) - Min (set (column (row # rest) j)))))
                     [0..<length row]\<rparr>"
proof -
  let ?X = "row # rest"
  let ?cols = "map (column ?X) [0..<length row]"
  let ?lo = "map (\<lambda>c. Min (set c)) ?cols"
  let ?range = "map2 (\<lambda>hi lo. hi - lo) (map (\<lambda>c. Max (set c)) ?cols) ?lo"
  let ?sc = "\<lambda>j. 1 / handle_zeros_in_scale (Max (set (column ?X j)) - Min (set (column ?X j)))"
  let ?scale = "map ?sc [0..<length row]"
  have range: "?range = map (\<lambda>j. Max (set (column ?X j)) - Min (set (column ?X j))) [0..<length row]"
    by (simp add: map2_map_map comp_def)
  have "map (\<lambda>r. divide_checked 1 (handle_zeros_in_scale r)) ?range = map Inr ?scale"
    unfolding range by (simp add: divide_checked_def handle_zeros_nonzero comp_def)
  then have c: "collect (map (\<lambda>r. divide_checked 1 (handle_zeros_in_scale r)) ?range) = Inr ?scale"
    by (simp only: collect_Inr_iff)
  have m: "map2 (\<lambda>lo s. 0 - lo * s) ?lo ?scale =
      map (\<lambda>j. 0 - Min (set (column ?X j)) * ?sc j) [0..<length row]"
    by (simp add: map2_map_map comp_def)
  show ?thesis
    unfolding mm_fit_def by (simp only: list.case Let_def c sum.case m)
qed

lemma ss_fit_Cons:
  "ss_fit (row # rest) =
     Inr \<lparr>ss_mean = map (\<lambda>j. mean (column (row # rest) j)) [0..<length row],
          ss_scale = map (\<lambda>j. handle_zeros_in_scale (sqrt (variance (column (row # rest) j))))
                       [0..<length row]\<rparr>"
  by (simp add: ss_fit_def comp_def del: upt_Suc)

lemma mm_transform_nth:
  assumes "mm_transform sc x = Inr y" and "length (mm_min sc) = length (mm_scale sc)"
  shows "length y = length x" and "length x = length (mm_scale sc)"
    and "j < length x \<Longrightarrow> y ! j = x ! j * mm_scale sc ! j + mm_min sc ! j"
proof -
  from assms(1) show len: "length x = length (mm_scale sc)"
    by (auto simp: mm_transform_def split: if_splits)
  from assms(1) len have y: "y = map2 (\<lambda>v (s, m). v * s + m) x (zip (mm_scale sc) (mm_min sc))"
    by (auto simp: mm_transform_def)
  show "length y = length x" using y len assms(2) by simp
  assume "j < length x"
  then show "y ! j = x ! j * mm_scale sc ! j + mm_min sc ! j"
    using y len assms(2) by simp
qed

lemma mm_transform_total:
  "length x = length (mm_scale sc) \<Longrightarrow> \<exists>y. mm_transform sc x = Inr y"
  by (simp add: mm_transform_def)

lemma ss_transform_nth:
  assumes "ss_transform sc x = Inr y" and "length (ss_scale sc) = length (ss_mean sc)"
  shows "length y = length x" and "length x = length (ss_mean sc)"
    and "j < length x \<Longrightarrow> ss_scale sc ! j \<noteq> 0 \<and> y ! j = (x ! j - ss_mean sc ! j) / ss_scale sc ! j"
proof -
  from assms(1) show len: "length x = length (ss_mean sc)"
    by (auto simp: ss_transform_def split: if_splits)
  let ?zs = "zip x (zip (ss_mean sc) (ss_scale sc))"
  let ?f = "\<lambda>(v, m, s). divide_checked (v - m) s"
  from assms(1) len have c: "collect (map ?f ?zs) = Inr y"
    by (auto simp: ss_transform_def)
  have lz: "length ?zs = length x" using len assms(2) by simp
  from collect_map_nth(1)[OF c] lz show "length y = length x" by simp
  assume j: "j < length x"
  with lz have "j < length ?zs" by simp
  from collect_map_nth(2)[OF c this] j len assms(2)
  have "divide_checked (x ! j - ss_mean sc ! j) (ss_scale sc ! j) = Inr (y ! j)" by simp
  then show "ss_scale sc ! j \<noteq> 0 \<and> y ! j = (x ! j - ss_mean sc ! j) / ss_scale sc ! j"
    by (auto simp: divide_checked_def split: if_splits)
qed

lemma ss_transform_total:
  assumes "length x = length (ss_mean sc)" "length (ss_scale sc) = length (ss_mean sc)"
    "\<forall>s\<in>set (ss_scale sc). s \<noteq> 0"
  shows "\<exists>y. ss_transform sc x = Inr y"
proof -
  let ?zs = "zip x (zip (ss_mean sc) (ss_scale sc))"
  let ?f = "\<lambda>(v, m, s). divide_checked (v - m) s"
  have "\<forall>z\<in>set ?zs. \<exists>y. ?f z = Inr y"
    using assms(3) by (auto simp: divide_checked_def dest!: set_zip_rightD)
  from collect_total[OF this] show ?thesis
    using assms(1) by (simp add: ss_transform_def)
qed


lemma fit_globals_unfold:
  assumes "fit_globals data = Inr g"
  shows "\<exists>normalized_data.
           mm_fit (map song_vector data) = Inr (min_max_scaler g) \<and>
           collect (map (mm_transform (min_max_scaler g)) (map song_vector data)) = Inr normalized_data \<and>
           ss_fit normalized_data = Inr (standard_scaler g) \<and>
           collect (map (ss_transform (standard_scaler g)) normalized_data) =
             Inr (scaled_normalized_data g)"
  using assms
  by (auto simp: fit_globals_def mm_fit_transform_def ss_fit_transform_def split: sum.splits)

lemma fit_globals_shape:
  assumes "fit_globals data = Inr g"
  shows "data \<noteq> []"
    and "length (mm_scale (min_max_scaler g)) = 15"
    and "length (mm_min (min_max_scaler g)) = 15"
    and "length (ss_mean (standard_scaler g)) = 15"
    and "length (ss_scale (standard_scaler g)) = 15"
    and "\<forall>s\<in>set (ss_scale (standard_scaler g)). s \<noteq> 0"
    and "length (scaled_normalized_data g) = length data"
    and "\<forall>row\<in>set (scaled_normalized_data g). length row = 15"
    and "\<forall>i<length data.
           scaled_normalized_song_center g (song_vector (data ! i)) = Inr (scaled_normalized_data g ! i)"
proof -
  from fit_globals_unfold[OF assms] obtain nd where
    mm: "mm_fit (map song_vector data) = Inr (min_max_scaler g)" and
    nd: "collect (map (mm_transform (min_max_scaler g)) (map song_vector data)) = Inr nd" and
    ss: "ss_fit nd = Inr (standard_scaler g)" and
    sd: "collect (map (ss_transform (standard_scaler g)) nd) = Inr (scaled_normalized_data g)"
    by blast
  show ne: "data \<noteq> []" using mm by (auto simp: mm_fit_def)
  then obtain s rest where data: "data = s # rest" by (cases data) auto
  from mm have mmg: "min_max_scaler g =
      \<lparr>mm_scale = map (\<lambda>j. 1 / handle_zeros_in_scale
                       (Max (set (column (map song_vector data) j)) - Min (set (column (map song_vector data) j))))
                     [0..<15],
          mm_min = map (\<lambda>j. 0 - Min (set (column (map song_vector data) j)) *
                       (1 / handle_zeros_in_scale
                         (Max (set (column (map song_vector data) j)) - Min (set (column (map song_vector data) j)))))
                     [0..<15]\<rparr>"
    unfolding data list.map mm_fit_Cons length_song_vector by simp
  show l1: "length (mm_scale (min_max_scaler g)) = 15" by (subst mmg) simp
  show l2: "length (mm_min (min_max_scaler g)) = 15" by (subst mmg) simp
  have lnd: "length nd = length data"
    using collect_map_nth(1)[OF nd] by simp
  have ndi: "mm_transform (min_max_scaler g) (song_vector (data ! i)) = Inr (nd ! i)"
    if "i < length data" for i
    using collect_map_nth(2)[OF nd, of i] that by simp
  have ndl: "length (nd ! i) = 15" if "i < length data" for i
    using mm_transform_nth(1)[OF ndi[OF that]] l1 l2 by (simp add: length_song_vector)
  from lnd ne obtain r0 nrest where ndc: "nd = r0 # nrest" by (cases nd) auto
  have r0: "length r0 = 15" using ndl[of 0] ne ndc by simp
  from ss have ssg: "standard_scaler g =
     \<lparr>ss_mean = map (\<lambda>j. mean (column nd j)) [0..<15],
      ss_scale = map (\<lambda>j. handle_zeros_in_scale (sqrt (variance (column nd j)))) [0..<15]\<rparr>"
    unfolding ndc ss_fit_Cons r0 by simp
  show l3: "length (ss_mean (standard_scaler g)) = 15" by (subst ssg) simp
  show l4: "length (ss_scale (standard_scaler g)) = 15" by (subst ssg) simp
  show nz: "\<forall>s\<in>set (ss_scale (standard_scaler g)). s \<noteq> 0"
    by (subst ssg) (auto simp: handle_zeros_nonzero simp del: upt_Suc)
  show lsd: "length (scaled_normalized_data g) = length data"
    using collect_map_nth(1)[OF sd] lnd by simp
  have sdi: "ss_transform (standard_scaler g) (nd ! i) = Inr (scaled_normalized_data g ! i)"
    if "i < length data" for i
    using collect_map_nth(2)[OF sd, of i] that lnd by simp
  show "\<forall>row\<in>set (scaled_normalized_data g). length row = 15"
  proof
    fix row assume "row \<in> set (scaled_normalized_data g)"
    then obtain i where i: "i < length data" "row = scaled_normalized_data g ! i"
      using lsd by (metis in_set_conv_nth)
    from ss_transform_nth(1)[OF sdi[OF i(1)]] l3 l4 ndl[OF i(1)] i(2) show "length row = 15"
      by simp
  qed
  show "\<forall>i<length data.
           scaled_normalized_song_center g (song_vector (data ! i)) = Inr (scaled_normalized_data g ! i)"
    by (simp add: scaled_normalized_song_center_def ndi sdi)
qed

lemma fit_globals_total:
  assumes "data \<noteq> []"
  shows "\<exists>g. fit_globals data = Inr g"
proof -
  from assms obtain s rest where data: "data = s # rest" by (cases data) auto
  obtain mm where mm: "mm_fit (map song_vector data) = Inr mm"
    unfolding data list.map mm_fit_Cons by blast
  then have l1: "length (mm_scale mm) = 15" and l2: "length (mm_min mm) = 15"
    unfolding data list.map mm_fit_Cons length_song_vector by auto
  have "\<forall>x\<in>set (map song_vector data). \<exists>y. mm_transform mm x = Inr y"
    using l1 by (auto simp: mm_transform_def length_song_vector)
  from collect_total[OF this] obtain nd where
    nd: "collect (map (mm_transform mm) (map song_vector data)) = Inr nd" by blast
  have lnd: "length nd = length data"
    using collect_map_nth(1)[OF nd] by simp
  have ndl: "length r = 15" if "r \<in> set nd" for r
  proof -
    from that obtain i where i: "i < length data" "r = nd ! i"
      using lnd by (metis in_set_conv_nth)
    from collect_map_nth(2)[OF nd, of i] i
    have "mm_transform mm (song_vector (data ! i)) = Inr r" by simp
    from mm_transform_nth(1)[OF this] l1 l2 show ?thesis by (simp add: length_song_vector)
  qed
  from lnd assms obtain r0 nrest where ndc: "nd = r0 # nrest" by (cases nd) auto
  have r0: "length r0 = 15" using ndl[of r0] ndc by simp
  obtain ss where ss: "ss_fit nd = Inr ss"
    unfolding ndc ss_fit_Cons by blast
  then have l3: "length (ss_mean ss) = 15" and l4: "length (ss_scale ss) = 15"
    and nz: "\<forall>s\<in>set (ss_scale ss). s \<noteq> 0"
    unfolding ndc ss_fit_Cons r0 by (auto simp: handle_zeros_nonzero simp del: upt_Suc)
  have "\<forall>x\<in>set nd. \<exists>y. ss_transform ss x = Inr y"
    using ss_transform_total[of _ ss] l3 l4 nz ndl by simp
  from collect_total[OF this] obtain sd where
    sd: "collect (map (ss_transform ss) nd) = Inr sd" by blast
  show ?thesis
    by (simp only: fit_globals_def mm_fit_transform_def ss_fit_transform_def mm nd ss sd
        sum.case prod.case) blast
qed

section \<open>A column of zero range\<close>

lemma mean_zeros: "\<forall>x\<in>set xs. x = 0 \<Longrightarrow> mean xs = 0"
proof -
  assume "\<forall>x\<in>set xs. x = 0"
  then have "sum_list xs = 0" by (induction xs) auto
  then show ?thesis by (simp add: mean_def)
qed

lemma variance_zeros: "\<forall>x\<in>set xs. x = 0 \<Longrightarrow> variance xs = 0"
  by (simp add: variance_def mean_zeros)

lemma fit_globals_mm:
  assumes "fit_globals data = Inr g"
  shows "min_max_scaler g =
      \<lparr>mm_scale = map (\<lambda>j. 1 / handle_zeros_in_scale
                       (Max (set (column (map song_vector data) j)) - Min (set (column (map song_vector data) j))))
                     [0..<15],
          mm_min = map (\<lambda>j. 0 - Min (set (column (map song_vector data) j)) *
                       (1 / handle_zeros_in_scale
                         (Max (set (column (map song_vector data) j)) - Min (set (column (map song_vector data) j)))))
                     [0..<15]\<rparr>"
proof -
  from fit_globals_shape(1)[OF assms] obtain s rest where data: "data = s # rest"
    by (cases data) auto
  from fit_globals_unfold[OF assms] have "mm_fit (map song_vector data) = Inr (min_max_scaler g)"
    by blast
  then show ?thesis
    unfolding data list.map mm_fit_Cons length_song_vector by simp
qed

lemma fit_globals_ss:
  assumes "fit_globals data = Inr g"
  shows "\<exists>nd. collect (map (mm_transform (min_max_scaler g)) (map song_vector data)) = Inr nd \<and>
     collect (map (ss_transform (standard_scaler g)) nd) = Inr (scaled_normalized_data g) \<and>
     standard_scaler g =
       \<lparr>ss_mean = map (\<lambda>j. mean (column nd j)) [0..<15],
        ss_scale = map (\<lambda>j. handle_zeros_in_scale (sqrt (variance (column nd j)))) [0..<15]\<rparr>"
proof -
  from fit_globals_unfold[OF assms] obtain nd where
    nd: "collect (map (mm_transform (min_max_scaler g)) (map song_vector data)) = Inr nd" and
    ss: "ss_fit nd = Inr (standard_scaler g)" and
    sd: "collect (map (ss_transform (standard_scaler g)) nd) = Inr (scaled_normalized_data g)"
    by blast
  have lnd: "length nd = length data"
    using collect_map_nth(1)[OF nd] by simp
  with fit_globals_shape(1)[OF assms] obtain r0 nrest where ndc: "nd = r0 # nrest"
    by (cases nd) auto
  have "mm_transform (min_max_scaler g) (song_vector (data ! 0)) = Inr r0"
    using collect_map_nth(2)[OF nd, of 0] fit_globals_shape(1)[OF assms] ndc by simp
  from mm_transform_nth(1)[OF this] fit_globals_shape(2,3)[OF assms]
  have r0: "length r0 = 15" by (simp add: length_song_vector)
  from ss have "standard_scaler g =
     \<lparr>ss_mean = map (\<lambda>j. mean (column nd j)) [0..<15],
      ss_scale = map (\<lambda>j. handle_zeros_in_scale (sqrt (variance (column nd j)))) [0..<15]\<rparr>"
    unfolding ndc ss_fit_Cons r0 by simp
  with nd sd show ?thesis by blast
qed

subsection \<open>The globals of the example catalogs\<close>

lemma sqrt_quarter: "sqrt (1 / 4) = 1 / 2"
  by (rule real_sqrt_unique) (simp_all add: power2_eq_square)

lemma mm_fit_example:
  "mm_fit_transform [[0, 2000, 0, 0, 0, 0, 0, 0, 0, 0, 0, 0, 0, 0, 0],
      [0, 2000, 0, 0, 0, 0, 0, 0, 0, 0, 0, 0, 0, 0, 1],
      [1, 2000, 0, 0, 0, 1, 0, 0, 0, 0, 0, 0, 0, 0, 0],
      [1, 2000, 0, 0, 0, 1, 0, 0, 0, 0, 0, 0, 0, 0, 1]] =
   Inr (min_max_scaler example_globals,
     [[0, 0, 0, 0, 0, 0, 0, 0, 0, 0, 0, 0, 0, 0, 0],
      [0, 0, 0, 0, 0, 0, 0, 0, 0, 0, 0, 0, 0, 0, 1],
      [1, 0, 0, 0, 0, 1, 0, 0, 0, 0, 0, 0, 0, 0, 0],
      [1, 0, 0, 0, 0, 1, 0, 0, 0, 0, 0, 0, 0, 0, 1]])"
  by (simp add: mm_fit_transform_def mm_fit_def mm_transform_def column_def upt_15
      divide_checked_def handle_zeros_in_scale_def example_globals_def)

lemma ss_fit_example:
  "ss_fit_transform [[0, 0, 0, 0, 0, 0, 0, 0, 0, 0, 0, 0, 0, 0, 0],
      [0, 0, 0, 0, 0, 0, 0, 0, 0, 0, 0, 0, 0, 0, 1],
      [1, 0, 0, 0, 0, 1, 0, 0, 0, 0, 0, 0, 0, 0, 0],
      [1, 0, 0, 0, 0, 1, 0, 0, 0, 0, 0, 0, 0, 0, 1]] =
   Inr (standard_scaler example_globals, scaled_normalized_data example_globals)"
  by (simp add: ss_fit_transform_def ss_fit_def ss_transform_def column_def upt_15
      divide_checked_def handle_zeros_in_scale_def example_globals_def mean_def variance_def
      sqrt_quarter power2_eq_square)

lemma fit_globals_lower: "fit_globals lower_catalog = Inr example_globals"
  by (simp add: fit_globals_def lower_catalog_def song_vector_track mm_fit_example ss_fit_example)

lemma fit_globals_mixed: "fit_globals mixed_catalog = Inr example_globals"
  by (simp add: fit_globals_def mixed_catalog_def song_vector_track mm_fit_example ss_fit_example)


text \<open>
  C9: when a numeric column of a non-empty catalog has zero range (its minimum equals its
  maximum), fitting both scalers succeeds: no checked division fails, the scaled catalog
  has a row of 15 values for every song, and the value in that column is 0 in every row.
\<close>

theorem constant_column_scaled_to_zero:
  assumes "data \<noteq> []" and "j < 15"
    and "Min (set (column (map song_vector data) j)) = Max (set (column (map song_vector data) j))"
  shows "\<exists>g. fit_globals data = Inr g \<and> length (scaled_normalized_data g) = length data \<and>
           (\<forall>row\<in>set (scaled_normalized_data g). length row = 15 \<and> row ! j = 0)"
proof -
  from fit_globals_total[OF assms(1)] obtain g where g: "fit_globals data = Inr g" by blast
  let ?X = "map song_vector data"
  let ?lo = "Min (set (column ?X j))"
  note mmg = fit_globals_mm[OF g]
  from fit_globals_ss[OF g] obtain nd where
    nd: "collect (map (mm_transform (min_max_scaler g)) ?X) = Inr nd" and
    sd: "collect (map (ss_transform (standard_scaler g)) nd) = Inr (scaled_normalized_data g)" and
    ssg: "standard_scaler g =
       \<lparr>ss_mean = map (\<lambda>j. mean (column nd j)) [0..<15],
        ss_scale = map (\<lambda>j. handle_zeros_in_scale (sqrt (variance (column nd j)))) [0..<15]\<rparr>"
    by blast
  have lnd: "length nd = length data"
    using collect_map_nth(1)[OF nd] by simp
  have scale_j: "mm_scale (min_max_scaler g) ! j = 1"
    by (subst mmg) (use assms(2,3) in \<open>simp add: handle_zeros_in_scale_def del: upt_Suc\<close>)
  have min_j: "mm_min (min_max_scaler g) ! j = - ?lo"
    by (subst mmg) (use assms(2,3) in \<open>simp add: handle_zeros_in_scale_def del: upt_Suc\<close>)
  have const: "song_vector (data ! i) ! j = ?lo" if "i < length data" for i
  proof -
    have mem: "song_vector (data ! i) ! j \<in> set (column ?X j)"
      using that by (auto simp: column_def)
    then have "?lo \<le> song_vector (data ! i) ! j" by simp
    moreover from mem have "song_vector (data ! i) ! j \<le> Max (set (column ?X j))" by simp
    ultimately show ?thesis using assms(3) by simp
  qed
  have nd_j: "nd ! i ! j = 0" if "i < length data" for i
  proof -
    have "mm_transform (min_max_scaler g) (song_vector (data ! i)) = Inr (nd ! i)"
      using collect_map_nth(2)[OF nd, of i] that by simp
    from mm_transform_nth(3)[OF this, of j] fit_globals_shape(2,3)[OF g] assms(2)
    have "nd ! i ! j = song_vector (data ! i) ! j * mm_scale (min_max_scaler g) ! j
             + mm_min (min_max_scaler g) ! j"
      by (simp add: length_song_vector)
    then show ?thesis by (simp add: scale_j min_j const[OF that])
  qed
  have col0: "\<forall>x\<in>set (column nd j). x = 0"
    using nd_j lnd by (auto simp: column_def in_set_conv_nth)
  have mean_j: "ss_mean (standard_scaler g) ! j = 0"
    by (subst ssg) (use assms(2) col0 in \<open>simp add: mean_zeros del: upt_Suc\<close>)
  have sc_j: "ss_scale (standard_scaler g) ! j = 1"
    by (subst ssg) (use assms(2) col0 in \<open>simp add: variance_zeros handle_zeros_in_scale_def del: upt_Suc\<close>)
  have "row ! j = 0" if "row \<in> set (scaled_normalized_data g)" for row
  proof -
    from that obtain i where i: "i < length data" "row = scaled_normalized_data g ! i"
      using fit_globals_shape(7)[OF g] by (metis in_set_conv_nth)
    have t: "ss_transform (standard_scaler g) (nd ! i) = Inr row"
      using collect_map_nth(2)[OF sd, of i] i lnd by simp
    have "j < length (nd ! i)"
      using ss_transform_nth(2)[OF t] fit_globals_shape(4,5)[OF g] assms(2) by simp
    from ss_transform_nth(3)[OF t _ this] fit_globals_shape(4,5)[OF g]
    have "row ! j = (nd ! i ! j - ss_mean (standard_scaler g) ! j) / ss_scale (standard_scaler g) ! j"
      by simp
    then show ?thesis by (simp add: nd_j[OF i(1)] mean_j sc_j)
  qed
  with g fit_globals_shape(7,8)[OF g] show ?thesis by blast
qed

theorem constant_column_scaled_to_zero_witness:
  "lower_catalog \<noteq> [] \<and>
   Min (set (column (map song_vector lower_catalog) 1)) = 2000 \<and>
   Max (set (column (map song_vector lower_catalog) 1)) = 2000 \<and>
   fit_globals lower_catalog = Inr example_globals \<and>
   list_all (\<lambda>row. row ! 1 = 0) (scaled_normalized_data example_globals)"
proof -
  have ne: "lower_catalog \<noteq> []" by (simp add: lower_catalog_def)
  have lo: "Min (set (column (map song_vector lower_catalog) 1)) = 2000"
    by (simp add: lower_catalog_def song_vector_track column_def)
  have hi: "Max (set (column (map song_vector lower_catalog) 1)) = 2000"
    by (simp add: lower_catalog_def song_vector_track column_def)
  have "Min (set (column (map song_vector lower_catalog) 1)) = Max (set (column (map song_vector lower_catalog) 1))"
    using lo hi by simp
  from constant_column_scaled_to_zero[OF ne _ this] fit_globals_lower
  have "\<forall>row\<in>set (scaled_normalized_data example_globals). row ! 1 = 0"
    by auto
  then have "list_all (\<lambda>row. row ! 1 = 0) (scaled_normalized_data example_globals)"
    by (simp only: list_all_iff)
  with fit_globals_lower ne lo hi show ?thesis
    by simp
qed

section \<open>The steps of a recommendation\<close>

lemma subseq_sorted_wrt: "subseq xs ys \<Longrightarrow> sorted_wrt P ys \<Longrightarrow> sorted_wrt P xs"
proof (induction rule: list_emb.induct)
  case (list_emb_Nil ys)
  then show ?case by simp
next
  case (list_emb_Cons xs ys y)
  then show ?case by simp
next
  case (list_emb_Cons2 x y xs ys)
  from list_emb_Cons2.hyps(2) have "set xs \<subseteq> set ys"
    by (auto dest: list_emb_set)
  with list_emb_Cons2 show ?case by auto
qed

lemma subseq_distinct: "subseq xs ys \<Longrightarrow> distinct ys \<Longrightarrow> distinct xs"
proof (induction rule: list_emb.induct)
  case (list_emb_Nil ys)
  then show ?case by simp
next
  case (list_emb_Cons xs ys y)
  then show ?case by simp
next
  case (list_emb_Cons2 x y xs ys)
  from list_emb_Cons2.hyps(2) have "set xs \<subseteq> set ys"
    by (auto dest: list_emb_set)
  with list_emb_Cons2 show ?case by auto
qed

lemma argsort_sorted: "sorted (map (\<lambda>i. ds ! i) (argsort ds))"
  by (simp add: argsort_def)

lemma set_argsort: "set (argsort ds) = {0..<length ds}"
  by (simp add: argsort_def)

lemma distinct_argsort: "distinct (argsort ds)"
  by (simp add: argsort_def)

lemma length_np_mean: "X \<noteq> [] \<Longrightarrow> length (np_mean X) = length (hd X)"
  by (cases X) (simp_all add: np_mean_def)

lemma np_mean_nth:
  "X \<noteq> [] \<Longrightarrow> j < length (hd X) \<Longrightarrow> np_mean X ! j = (\<Sum>row\<leftarrow>X. row ! j) / real (length X)"
  by (cases X) (simp_all add: np_mean_def mean_def column_def comp_def del: upt_Suc)

lemma get_mean_vector_resolved:
  assumes "\<forall>s\<in>set seed_songs. get_song_data (seed_name s) data \<noteq> None"
  shows "get_mean_vector seed_songs data =
     (Some (np_mean (map (\<lambda>s. song_vector (the (get_song_data (seed_name s) data))) seed_songs)), [])"
  using seed_vectors_resolved[OF assms, of "[]"] by (simp add: get_mean_vector_def)

text \<open>Every successful call, whatever the globals: what was computed on the way.\<close>

lemma recommend_songs_InrD:
  assumes "fst (recommend_songs seed_songs data n g) = Inr res"
    and "\<forall>s\<in>set seed_songs. get_song_data (seed_name s) data \<noteq> None"
  shows "\<exists>c center rec_songs.
      get_mean_vector seed_songs data = (Some c, []) \<and>
      scaled_normalized_song_center g c = Inr center \<and>
      select_songs (argsort (map (euclidean center) (scaled_normalized_data g))) data seed_songs n []
        = Inr rec_songs \<and>
      rec_songs \<noteq> [] \<and> res = map metadata_cols rec_songs"
proof -
  from get_mean_vector_resolved[OF assms(2)] obtain c where
    c: "get_mean_vector seed_songs data = (Some c, [])" by blast
  from assms(1) obtain center where
    center: "scaled_normalized_song_center g c = Inr center"
    by (auto simp: recommend_songs_def c split: sum.splits)
  from assms(1) have d: "cdist center (scaled_normalized_data g) =
      Inr (map (euclidean center) (scaled_normalized_data g))"
    by (auto simp: recommend_songs_def c center cdist_def split: sum.splits if_splits)
  from assms(1) obtain rec_songs where
    sel: "select_songs (argsort (map (euclidean center) (scaled_normalized_data g))) data seed_songs n []
        = Inr rec_songs"
    by (auto simp: recommend_songs_def c center d split: sum.splits)
  from assms(1) have "to_records rec_songs = Inr res"
    by (simp add: recommend_songs_def c center d sel)
  then have "rec_songs \<noteq> []" "res = map metadata_cols rec_songs"
    by (auto simp: to_records_def split: if_splits)
  with c center sel show ?thesis by blast
qed

text \<open>With the globals fitted on the catalog, a call with resolvable seeds gets as far as
  the selection, and the selection does not fail.\<close>

lemma recommend_songs_fitted:
  assumes "fit_globals data = Inr g" and "seed_songs \<noteq> []"
    and "\<forall>s\<in>set seed_songs. get_song_data (seed_name s) data \<noteq> None"
  shows "\<exists>c center rec_songs.
      get_mean_vector seed_songs data = (Some c, []) \<and> length c = 15 \<and>
      scaled_normalized_song_center g c = Inr center \<and> length center = 15 \<and>
      select_songs (argsort (map (euclidean center) (scaled_normalized_data g))) data seed_songs n []
        = Inr rec_songs \<and>
      recommend_songs seed_songs data n g = (to_records rec_songs, [])"
proof -
  let ?M = "map (\<lambda>s. song_vector (the (get_song_data (seed_name s) data))) seed_songs"
  let ?c = "np_mean ?M"
  have c: "get_mean_vector seed_songs data = (Some ?c, [])"
    by (rule get_mean_vector_resolved[OF assms(3)])
  have M: "?M \<noteq> []" "length (hd ?M) = 15"
    using assms(2) by (simp_all add: hd_map length_song_vector)
  then have lc: "length ?c = 15" by (simp add: length_np_mean)
  note sh = fit_globals_shape[OF assms(1)]
  from mm_transform_total[of ?c "min_max_scaler g"] lc sh(2) obtain y where
    y: "mm_transform (min_max_scaler g) ?c = Inr y" by auto
  from mm_transform_nth(1)[OF y] sh(2,3) lc have ly: "length y = 15" by simp
  from ss_transform_total[of y "standard_scaler g"] ly sh(4,5,6) obtain center where
    t: "ss_transform (standard_scaler g) y = Inr center" by auto
  from ss_transform_nth(1)[OF t] sh(4,5) ly have lcen: "length center = 15" by simp
  have center: "scaled_normalized_song_center g ?c = Inr center"
    by (simp add: scaled_normalized_song_center_def y t)
  have d: "cdist center (scaled_normalized_data g) =
      Inr (map (euclidean center) (scaled_normalized_data g))"
    using sh(8) lcen by (simp add: cdist_def list_all_iff)
  have "\<forall>i\<in>set (argsort (map (euclidean center) (scaled_normalized_data g))). i < length data"
    using sh(7) by (simp add: set_argsort)
  from select_songs_total[OF this] obtain rec_songs where
    sel: "select_songs (argsort (map (euclidean center) (scaled_normalized_data g))) data seed_songs n []
        = Inr rec_songs" by blast
  have "recommend_songs seed_songs data n g = (to_records rec_songs, [])"
    by (simp add: recommend_songs_def c center d sel del: select_songs.simps)
  with c lc center lcen sel show ?thesis by blast
qed

text \<open>It returns records exactly when some catalog name is not a seed name.\<close>

lemma recommend_songs_returns:
  assumes "fit_globals data = Inr g" and "seed_songs \<noteq> []"
    and "\<forall>s\<in>set seed_songs. get_song_data (seed_name s) data \<noteq> None"
    and "\<exists>song\<in>set data. name song \<notin> set (map seed_name seed_songs)"
  shows "\<exists>res. fst (recommend_songs seed_songs data n g) = Inr res \<and> res \<noteq> []"
proof -
  from recommend_songs_fitted[OF assms(1-3), of n] obtain center rec_songs where
    sel: "select_songs (argsort (map (euclidean center) (scaled_normalized_data g))) data seed_songs n []
        = Inr rec_songs" and
    r: "recommend_songs seed_songs data n g = (to_records rec_songs, [])" by blast
  from assms(4) obtain i where "i < length data" "name (data ! i) \<notin> set (map seed_name seed_songs)"
    by (metis in_set_conv_nth)
  then have "\<exists>i\<in>set (argsort (map (euclidean center) (scaled_normalized_data g))).
      name (data ! i) \<notin> set (map seed_name seed_songs)"
    using fit_globals_shape(7)[OF assms(1)] by (auto simp: set_argsort)
  from select_songs_nonempty[OF sel this] have "rec_songs \<noteq> []" .
  then show ?thesis by (simp add: r to_records_def)
qed

section \<open>Calls on the example catalogs\<close>

lemma seeds_resolve_lower:
  "get_song_data ''a'' lower_catalog = Some (track ''a'' 0 0 0)"
  "get_song_data ''b'' lower_catalog = Some (track ''b'' 0 0 1)"
  "get_song_data ''c'' lower_catalog = Some (track ''c'' 1 1 0)"
  "get_song_data ''d'' lower_catalog = Some (track ''d'' 1 1 1)"
  by (simp_all add: lower_catalog_def lookup_eval)

lemma seed_resolves_mixed:
  "get_song_data ''world'' mixed_catalog = Some (track ''World'' 1 1 0)"
  by (simp add: mixed_catalog_def lookup_eval)

lemma two_le_sqrt8: "2 \<le> sqrt 8"
  by (rule real_le_rsqrt) simp

lemma mean_vector_a:
  "get_mean_vector [Seed ''a''] lower_catalog =
     (Some [0, 2000, 0, 0, 0, 0, 0, 0, 0, 0, 0, 0, 0, 0, 0], [])"
  by (simp add: get_mean_vector_def seeds_resolve_lower song_vector_track np_mean_def
      column_def mean_def upt_15)

lemma center_a:
  "scaled_normalized_song_center example_globals [0, 2000, 0, 0, 0, 0, 0, 0, 0, 0, 0, 0, 0, 0, 0] =
     Inr [- 1, 0, 0, 0, 0, - 1, 0, 0, 0, 0, 0, 0, 0, 0, - 1]"
  by (simp add: scaled_normalized_song_center_def mm_transform_def ss_transform_def
      example_globals_def divide_checked_def)

lemma distances_a:
  "cdist [- 1, 0, 0, 0, 0, - 1, 0, 0, 0, 0, 0, 0, 0, 0, - 1] (scaled_normalized_data example_globals) =
     Inr [0, 2, sqrt 8, sqrt 12]"
  by (simp add: cdist_def example_globals_def euclidean_def)

lemma argsort_a: "argsort [0, 2, sqrt 8, sqrt 12] = [0, 1, 2, 3]"
  using two_le_sqrt8 by (simp add: argsort_def upt_rec sort_key_def)

lemma select_a_2:
  "select_songs (argsort [0, 2, sqrt 8, sqrt 12]) lower_catalog [Seed ''a''] 2 [] =
     Inr [track ''b'' 0 0 1, track ''c'' 1 1 0]"
  by (simp add: argsort_a lower_catalog_def name_track)

lemma select_a_0:
  "select_songs (argsort [0, 2, sqrt 8, sqrt 12]) lower_catalog [Seed ''a''] 0 [] =
     Inr [track ''b'' 0 0 1, track ''c'' 1 1 0, track ''d'' 1 1 1]"
  by (simp add: argsort_a lower_catalog_def name_track)

lemma recommend_a_2:
  "recommend_songs [Seed ''a''] lower_catalog 2 example_globals = (Inr [meta ''b'', meta ''c''], [])"
  by (simp add: recommend_songs_def mean_vector_a center_a distances_a select_a_2
      to_records_def metadata_track del: select_songs.simps)

lemma recommend_a_0:
  "recommend_songs [Seed ''a''] lower_catalog 0 example_globals =
     (Inr [meta ''b'', meta ''c'', meta ''d''], [])"
  by (simp add: recommend_songs_def mean_vector_a center_a distances_a select_a_0
      to_records_def metadata_track del: select_songs.simps)

lemma recommend_no_seed:
  "recommend_songs [] lower_catalog n example_globals = (Inl ValueError, [])"
  by (simp add: recommend_songs_def get_mean_vector_def np_mean_def
      scaled_normalized_song_center_def mm_transform_def example_globals_def)

lemma mean_vector_world:
  "get_mean_vector [Seed ''world''] mixed_catalog =
     (Some [1, 2000, 0, 0, 0, 1, 0, 0, 0, 0, 0, 0, 0, 0, 0], [])"
  by (simp add: get_mean_vector_def seed_resolves_mixed song_vector_track np_mean_def
      column_def mean_def upt_15)

lemma center_world:
  "scaled_normalized_song_center example_globals [1, 2000, 0, 0, 0, 1, 0, 0, 0, 0, 0, 0, 0, 0, 0] =
     Inr [1, 0, 0, 0, 0, 1, 0, 0, 0, 0, 0, 0, 0, 0, - 1]"
  by (simp add: scaled_normalized_song_center_def mm_transform_def ss_transform_def
      example_globals_def divide_checked_def)

lemma distances_world:
  "cdist [1, 0, 0, 0, 0, 1, 0, 0, 0, 0, 0, 0, 0, 0, - 1] (scaled_normalized_data example_globals) =
     Inr [sqrt 8, sqrt 12, 0, 2]"
  by (simp add: cdist_def example_globals_def euclidean_def)

lemma argsort_world: "argsort [sqrt 8, sqrt 12, 0, 2] = [2, 3, 0, 1]"
proof -
  have "\<not> sqrt 8 \<le> 2"
    using real_less_rsqrt[of 2 8] by simp
  moreover have "\<not> sqrt 12 \<le> 2"
    using real_less_rsqrt[of 2 12] by simp
  ultimately show ?thesis
    by (simp add: argsort_def upt_rec sort_key_def)
qed

lemma select_world_1:
  "select_songs (argsort [sqrt 8, sqrt 12, 0, 2]) mixed_catalog [Seed ''world''] 1 [] =
     Inr [track ''World'' 1 1 0]"
  by (simp add: argsort_world mixed_catalog_def name_track)

lemma select_world_4:
  "select_songs (argsort [sqrt 8, sqrt 12, 0, 2]) mixed_catalog [Seed ''world''] 4 [] =
     Inr [track ''World'' 1 1 0, track ''x'' 1 1 1, track ''Hello'' 0 0 0, track ''hello'' 0 0 1]"
  by (simp add: argsort_world mixed_catalog_def name_track)

lemma recommend_world_1:
  "recommend_songs [Seed ''world''] mixed_catalog 1 example_globals = (Inr [meta ''World''], [])"
  by (simp add: recommend_songs_def mean_vector_world center_world distances_world select_world_1
      to_records_def metadata_track del: select_songs.simps)

lemma recommend_world_4:
  "recommend_songs [Seed ''world''] mixed_catalog 4 example_globals =
     (Inr [meta ''World'', meta ''x'', meta ''Hello'', meta ''hello''], [])"
  by (simp add: recommend_songs_def mean_vector_world center_world distances_world select_world_4
      to_records_def metadata_track del: select_songs.simps)

lemma mean_vector_all:
  "get_mean_vector [Seed ''a'', Seed ''b'', Seed ''c'', Seed ''d''] lower_catalog =
     (Some [1 / 2, 2000, 0, 0, 0, 1 / 2, 0, 0, 0, 0, 0, 0, 0, 0, 1 / 2], [])"
  by (simp add: get_mean_vector_def seeds_resolve_lower song_vector_track np_mean_def
      column_def mean_def upt_15)

lemma center_all:
  "scaled_normalized_song_center example_globals
     [1 / 2, 2000, 0, 0, 0, 1 / 2, 0, 0, 0, 0, 0, 0, 0, 0, 1 / 2] =
     Inr [0, 0, 0, 0, 0, 0, 0, 0, 0, 0, 0, 0, 0, 0, 0]"
  by (simp add: scaled_normalized_song_center_def mm_transform_def ss_transform_def
      example_globals_def divide_checked_def)

lemma distances_all:
  "cdist [0, 0, 0, 0, 0, 0, 0, 0, 0, 0, 0, 0, 0, 0, 0] (scaled_normalized_data example_globals) =
     Inr [sqrt 3, sqrt 3, sqrt 3, sqrt 3]"
  by (simp add: cdist_def example_globals_def euclidean_def)

lemma select_all:
  "select_songs (argsort [sqrt 3, sqrt 3, sqrt 3, sqrt 3]) lower_catalog
     [Seed ''a'', Seed ''b'', Seed ''c'', Seed ''d''] 10 [] = Inr []"
  by (simp add: argsort_def upt_rec sort_key_def lower_catalog_def name_track)

lemma recommend_all:
  "recommend_songs [Seed ''a'', Seed ''b'', Seed ''c'', Seed ''d''] lower_catalog 10 example_globals =
     (Inl KeyError, [])"
  by (simp add: recommend_songs_def mean_vector_all center_all distances_all select_all
      to_records_def del: select_songs.simps)

lemma meta_name_metadata_cols: "meta_name (metadata_cols r) = name r"
  by (simp add: metadata_cols_def)

lemma meta_name_comp: "meta_name \<circ> metadata_cols = name"
  by (rule ext) (simp add: metadata_cols_def)

lemma recommend_songs_names:
  assumes "fst (recommend_songs seed_songs data n g) = Inr res"
  shows "distinct (map meta_name res)"
    and "\<forall>r\<in>set res. meta_name r \<notin> set (map seed_name seed_songs)"
proof -
  have "distinct (map meta_name res) \<and> (\<forall>r\<in>set res. meta_name r \<notin> set (map seed_name seed_songs))"
  proof (cases "\<forall>s\<in>set seed_songs. get_song_data (seed_name s) data \<noteq> None")
    case True
    from recommend_songs_InrD[OF assms True] obtain center rec_songs where
      sel: "select_songs (argsort (map (euclidean center) (scaled_normalized_data g))) data seed_songs n []
          = Inr rec_songs" and res: "res = map metadata_cols rec_songs" by blast
    from select_songs_names[OF sel] have
      "distinct (map name rec_songs)" "\<forall>r\<in>set rec_songs. name r \<notin> set (map seed_name seed_songs)"
      by simp_all
    then show ?thesis
      unfolding res by (auto simp: meta_name_metadata_cols meta_name_comp)
  next
    case False
    then have "fst (get_mean_vector seed_songs data) = None"
      by (intro get_mean_vector_unresolved) auto
    then have "fst (recommend_songs seed_songs data n g) = Inr []"
      by (cases "get_mean_vector seed_songs data") (simp add: recommend_songs_def)
    with assms show ?thesis by simp
  qed
  then show "distinct (map meta_name res)"
    and "\<forall>r\<in>set res. meta_name r \<notin> set (map seed_name seed_songs)" by simp_all
qed

lemma recommend_songs_at_most:
  assumes "fst (recommend_songs seed_songs data n g) = Inr res" and "1 \<le> n"
  shows "int (length res) \<le> n"
proof (cases "\<forall>s\<in>set seed_songs. get_song_data (seed_name s) data \<noteq> None")
  case True
  from recommend_songs_InrD[OF assms(1) True] obtain center rec_songs where
    sel: "select_songs (argsort (map (euclidean center) (scaled_normalized_data g))) data seed_songs n []
        = Inr rec_songs" and res: "res = map metadata_cols rec_songs" by blast
  from select_songs_length[OF sel] assms(2) show ?thesis
    unfolding res by simp
next
  case False
  then have "fst (get_mean_vector seed_songs data) = None"
    by (intro get_mean_vector_unresolved) auto
  then have "fst (recommend_songs seed_songs data n g) = Inr []"
    by (cases "get_mean_vector seed_songs data") (simp add: recommend_songs_def)
  with assms show ?thesis by simp
qed

section \<open>Seed songs in the result\<close>

text \<open>
  C1 fails on the code. The seed \<open>world\<close> resolves to the stored song \<open>World\<close>, and
  the call returns that very song: the selection compares the stored name \<open>World\<close> with
  the seed name \<open>world\<close> as it was passed, and they differ.
\<close>

theorem seed_song_recommended:
  "fit_globals mixed_catalog = Inr example_globals \<and>
   get_song_data ''world'' mixed_catalog = Some (track ''World'' 1 1 0) \<and>
   fst (recommend_songs [Seed ''world''] mixed_catalog 1 example_globals) = Inr [meta ''World''] \<and>
   str_lower (meta_name (meta ''World'')) = seed_name (Seed ''world'')"
  by (simp add: fit_globals_mixed seed_resolves_mixed recommend_world_1 meta_def
      str_lower_def char_lower_def)

text \<open>
  What does hold of every call: for a count of at least 1 the result has at most that many
  records, and no returned name is identical to a seed name as passed.
\<close>

lemma recommend_songs_bounded_and_filtered:
  assumes "fit_globals data = Inr g" and "seed_songs \<noteq> []"
    and "\<forall>s\<in>set seed_songs. get_song_data (seed_name s) data \<noteq> None"
    and "\<exists>song\<in>set data. name song \<notin> set (map seed_name seed_songs)"
    and "1 \<le> n"
  shows "\<exists>res. fst (recommend_songs seed_songs data n g) = Inr res \<and> res \<noteq> [] \<and>
           int (length res) \<le> n \<and> (\<forall>r\<in>set res. meta_name r \<notin> set (map seed_name seed_songs))"
proof -
  from recommend_songs_returns[OF assms(1-4), of n] obtain res where
    res: "fst (recommend_songs seed_songs data n g) = Inr res" "res \<noteq> []" by blast
  from recommend_songs_at_most[OF res(1) assms(5)] recommend_songs_names(2)[OF res(1)] res
  show ?thesis by blast
qed

section \<open>No duplicate names in the result\<close>

text \<open>
  C7, as the code has it: with the globals fitted on the catalog, at least one seed, every
  seed resolvable and some catalog name that is not a seed name, the call returns records
  whose names are pairwise different. The selection compares the stored names exactly.
\<close>

theorem result_names_distinct:
  assumes "fit_globals data = Inr g" and "seed_songs \<noteq> []"
    and "\<forall>s\<in>set seed_songs. get_song_data (seed_name s) data \<noteq> None"
    and "\<exists>song\<in>set data. name song \<notin> set (map seed_name seed_songs)"
  shows "\<exists>res. fst (recommend_songs seed_songs data n g) = Inr res \<and> res \<noteq> [] \<and>
           distinct (map meta_name res)"
proof -
  from recommend_songs_returns[OF assms, of n] obtain res where
    res: "fst (recommend_songs seed_songs data n g) = Inr res" "res \<noteq> []" by blast
  from recommend_songs_names(1)[OF res(1)] res show ?thesis by blast
qed

theorem result_names_distinct_witness:
  "fit_globals lower_catalog = Inr example_globals \<and>
   get_song_data ''a'' lower_catalog = Some (track ''a'' 0 0 0) \<and>
   name (track ''b'' 0 0 1) \<notin> set (map seed_name [Seed ''a'']) \<and>
   fst (recommend_songs [Seed ''a''] lower_catalog 2 example_globals) = Inr [meta ''b'', meta ''c''] \<and>
   distinct (map meta_name [meta ''b'', meta ''c''])"
proof -
  have seeds: "\<forall>s\<in>set [Seed ''a'']. get_song_data (seed_name s) lower_catalog \<noteq> None"
    by (simp add: seeds_resolve_lower)
  have other: "\<exists>song\<in>set lower_catalog. name song \<notin> set (map seed_name [Seed ''a''])"
    by (simp add: lower_catalog_def name_track)
  from result_names_distinct[OF fit_globals_lower _ seeds other, of 2]
  have "distinct (map meta_name [meta ''b'', meta ''c''])"
    by (simp add: recommend_a_2)
  then show ?thesis
    by (simp add: fit_globals_lower seeds_resolve_lower recommend_a_2 name_track)
qed

text \<open>
  C7 as stated fails: the names are not compared case-insensitively, and a result can hold
  two records whose names differ in case only.
\<close>

theorem names_differ_in_case_counterexample:
  "fit_globals mixed_catalog = Inr example_globals \<and>
   fst (recommend_songs [Seed ''world''] mixed_catalog 4 example_globals) =
     Inr [meta ''World'', meta ''x'', meta ''Hello'', meta ''hello''] \<and>
   str_lower (meta_name (meta ''Hello'')) = str_lower (meta_name (meta ''hello''))"
  by (simp add: fit_globals_mixed recommend_world_4 meta_def str_lower_def char_lower_def)

section \<open>The order of the result\<close>

text \<open>
  C2: with the globals fitted on the catalog, at least one seed, every seed resolvable and
  some catalog name that is not a seed name, the call returns the metadata of catalog rows
  \<open>is\<close>, pairwise different, in an order in which the Euclidean distance between the
  scaled seed center and the scaled catalog row never decreases. The scaled catalog row
  of a song is what the two scalers make of its numeric columns.
\<close>

theorem recommendations_ordered_by_distance:
  assumes "fit_globals data = Inr g" and "seed_songs \<noteq> []"
    and "\<forall>s\<in>set seed_songs. get_song_data (seed_name s) data \<noteq> None"
    and "\<exists>song\<in>set data. name song \<notin> set (map seed_name seed_songs)"
  shows "\<exists>c center is.
      get_mean_vector seed_songs data = (Some c, []) \<and>
      scaled_normalized_song_center g c = Inr center \<and>
      fst (recommend_songs seed_songs data n g) = Inr (map (\<lambda>i. metadata_cols (data ! i)) is) \<and>
      is \<noteq> [] \<and> distinct is \<and>
      (\<forall>i\<in>set is. i < length data \<and>
         scaled_normalized_song_center g (song_vector (data ! i)) = Inr (scaled_normalized_data g ! i)) \<and>
      sorted (map (\<lambda>i. euclidean center (scaled_normalized_data g ! i)) is)"
proof -
  let ?sd = "scaled_normalized_data g"
  from recommend_songs_fitted[OF assms(1-3), of n] obtain c center rec_songs where
    c: "get_mean_vector seed_songs data = (Some c, [])" and
    center: "scaled_normalized_song_center g c = Inr center" and
    sel: "select_songs (argsort (map (euclidean center) ?sd)) data seed_songs n [] = Inr rec_songs" and
    r: "recommend_songs seed_songs data n g = (to_records rec_songs, [])" by blast
  from recommend_songs_returns[OF assms, of n] obtain res where
    res: "fst (recommend_songs seed_songs data n g) = Inr res" "res \<noteq> []" by blast
  with r have rs: "rec_songs \<noteq> []" "res = map metadata_cols rec_songs"
    by (auto simp: to_records_def split: if_splits)
  from select_songs_subseq[OF sel] obtain "is" where
    sub: "subseq is (argsort (map (euclidean center) ?sd))" and
    eq: "rec_songs = map (\<lambda>i. data ! i) is" and lt: "\<forall>j\<in>set is. j < length data"
    by auto
  have d: "distinct is"
    using subseq_distinct[OF sub] by (simp add: distinct_argsort)
  have "sorted_wrt (\<lambda>i j. map (euclidean center) ?sd ! i \<le> map (euclidean center) ?sd ! j)
          (argsort (map (euclidean center) ?sd))"
    using argsort_sorted[of "map (euclidean center) ?sd"] by (simp add: sorted_wrt_map)
  from subseq_sorted_wrt[OF sub this]
  have "sorted (map (\<lambda>i. map (euclidean center) ?sd ! i) is)"
    by (simp add: sorted_wrt_map)
  moreover have "map (\<lambda>i. map (euclidean center) ?sd ! i) is = map (\<lambda>i. euclidean center (?sd ! i)) is"
    using lt fit_globals_shape(7)[OF assms(1)] by simp
  ultimately have s: "sorted (map (\<lambda>i. euclidean center (?sd ! i)) is)" by simp
  have m: "fst (recommend_songs seed_songs data n g) = Inr (map (\<lambda>i. metadata_cols (data ! i)) is)"
    using res(1) rs(2) eq by (simp add: comp_def)
  have "is \<noteq> []" using rs(1) eq by simp
  with c center m d lt fit_globals_shape(9)[OF assms(1)] s show ?thesis by blast
qed

theorem recommendations_ordered_by_distance_witness:
  "fit_globals lower_catalog = Inr example_globals \<and>
   get_song_data ''a'' lower_catalog = Some (track ''a'' 0 0 0) \<and>
   fst (recommend_songs [Seed ''a''] lower_catalog 2 example_globals) = Inr [meta ''b'', meta ''c''] \<and>
   (\<exists>c center is.
      get_mean_vector [Seed ''a''] lower_catalog = (Some c, []) \<and>
      scaled_normalized_song_center example_globals c = Inr center \<and>
      [meta ''b'', meta ''c''] = map (\<lambda>i. metadata_cols (lower_catalog ! i)) is \<and>
      is \<noteq> [] \<and> distinct is \<and>
      (\<forall>i\<in>set is. i < length lower_catalog \<and>
         scaled_normalized_song_center example_globals (song_vector (lower_catalog ! i)) =
           Inr (scaled_normalized_data example_globals ! i)) \<and>
      sorted (map (\<lambda>i. euclidean center (scaled_normalized_data example_globals ! i)) is))"
proof -
  have seeds: "\<forall>s\<in>set [Seed ''a'']. get_song_data (seed_name s) lower_catalog \<noteq> None"
    by (simp add: seeds_resolve_lower)
  have other: "\<exists>song\<in>set lower_catalog. name song \<notin> set (map seed_name [Seed ''a''])"
    by (simp add: lower_catalog_def name_track)
  from recommendations_ordered_by_distance[OF fit_globals_lower _ seeds other, of 2]
  show ?thesis
    by (simp add: fit_globals_lower seeds_resolve_lower recommend_a_2)
qed

section \<open>The query center\<close>

text \<open>
  C4: with the globals fitted on the catalog, at least one seed and every seed resolvable,
  the song center has 15 components, each the arithmetic mean of that column over the
  rows found for the seeds; the center that the distances are taken from has 15
  components, each obtained from the song center by the range scaler's step (times
  scale, plus min) followed by the standard scaler's step (minus mean, divided by a
  deviation that is not zero); and the call selects by the distances to that center.
\<close>

theorem song_center_mean_then_scaled:
  assumes "fit_globals data = Inr g" and "seed_songs \<noteq> []"
    and "\<forall>s\<in>set seed_songs. get_song_data (seed_name s) data \<noteq> None"
  shows "\<exists>c center rec_songs.
      get_mean_vector seed_songs data = (Some c, []) \<and> length c = 15 \<and>
      (\<forall>j<15. c ! j =
          (\<Sum>s\<leftarrow>seed_songs. song_vector (the (get_song_data (seed_name s) data)) ! j)
            / real (length seed_songs)) \<and>
      scaled_normalized_song_center g c = Inr center \<and> length center = 15 \<and>
      (\<forall>j<15. ss_scale (standard_scaler g) ! j \<noteq> 0 \<and>
          center ! j =
            ((c ! j * mm_scale (min_max_scaler g) ! j + mm_min (min_max_scaler g) ! j)
               - ss_mean (standard_scaler g) ! j) / ss_scale (standard_scaler g) ! j) \<and>
      select_songs (argsort (map (euclidean center) (scaled_normalized_data g))) data seed_songs n []
        = Inr rec_songs \<and>
      recommend_songs seed_songs data n g = (to_records rec_songs, [])"
proof -
  let ?M = "map (\<lambda>s. song_vector (the (get_song_data (seed_name s) data))) seed_songs"
  from recommend_songs_fitted[OF assms, of n] obtain c center rec_songs where
    c: "get_mean_vector seed_songs data = (Some c, [])" and lc: "length c = 15" and
    center: "scaled_normalized_song_center g c = Inr center" and lcen: "length center = 15" and
    sel: "select_songs (argsort (map (euclidean center) (scaled_normalized_data g))) data seed_songs n []
        = Inr rec_songs" and
    r: "recommend_songs seed_songs data n g = (to_records rec_songs, [])" by blast
  from c get_mean_vector_resolved[OF assms(3)] have cm: "c = np_mean ?M" by simp
  have M: "?M \<noteq> []" "length (hd ?M) = 15"
    using assms(2) by (simp_all add: hd_map length_song_vector)
  have mean: "c ! j = (\<Sum>s\<leftarrow>seed_songs. song_vector (the (get_song_data (seed_name s) data)) ! j)
            / real (length seed_songs)" if "j < 15" for j
    using np_mean_nth[OF M(1), of j] that M(2) unfolding cm by (simp add: comp_def)
  note sh = fit_globals_shape[OF assms(1)]
  from center obtain y where
    y: "mm_transform (min_max_scaler g) c = Inr y" and
    t: "ss_transform (standard_scaler g) y = Inr center"
    by (auto simp: scaled_normalized_song_center_def split: sum.splits)
  have ly: "length y = 15" using mm_transform_nth(1)[OF y] sh(2,3) lc by simp
  have scaled: "ss_scale (standard_scaler g) ! j \<noteq> 0 \<and>
          center ! j =
            ((c ! j * mm_scale (min_max_scaler g) ! j + mm_min (min_max_scaler g) ! j)
               - ss_mean (standard_scaler g) ! j) / ss_scale (standard_scaler g) ! j"
    if "j < 15" for j
  proof -
    from mm_transform_nth(3)[OF y, of j] sh(2,3) lc that
    have "y ! j = c ! j * mm_scale (min_max_scaler g) ! j + mm_min (min_max_scaler g) ! j"
      by simp
    moreover from ss_transform_nth(3)[OF t, of j] sh(4,5) ly that
    have "ss_scale (standard_scaler g) ! j \<noteq> 0 \<and>
          center ! j = (y ! j - ss_mean (standard_scaler g) ! j) / ss_scale (standard_scaler g) ! j"
      by simp
    ultimately show ?thesis by simp
  qed
  from c lc mean center lcen scaled sel r show ?thesis by blast
qed

theorem song_center_mean_then_scaled_witness:
  "fit_globals lower_catalog = Inr example_globals \<and>
   get_song_data ''a'' lower_catalog = Some (track ''a'' 0 0 0) \<and>
   get_song_data ''d'' lower_catalog = Some (track ''d'' 1 1 1) \<and>
   (\<exists>c center rec_songs.
      get_mean_vector [Seed ''a'', Seed ''d''] lower_catalog = (Some c, []) \<and> length c = 15 \<and>
      (\<forall>j<15. c ! j =
          (\<Sum>s\<leftarrow>[Seed ''a'', Seed ''d'']. song_vector (the (get_song_data (seed_name s) lower_catalog)) ! j)
            / real (length [Seed ''a'', Seed ''d''])) \<and>
      scaled_normalized_song_center example_globals c = Inr center \<and> length center = 15 \<and>
      (\<forall>j<15. ss_scale (standard_scaler example_globals) ! j \<noteq> 0 \<and>
          center ! j =
            ((c ! j * mm_scale (min_max_scaler example_globals) ! j
                + mm_min (min_max_scaler example_globals) ! j)
               - ss_mean (standard_scaler example_globals) ! j)
              / ss_scale (standard_scaler example_globals) ! j) \<and>
      select_songs (argsort (map (euclidean center) (scaled_normalized_data example_globals)))
        lower_catalog [Seed ''a'', Seed ''d''] 3 [] = Inr rec_songs \<and>
      recommend_songs [Seed ''a'', Seed ''d''] lower_catalog 3 example_globals =
        (to_records rec_songs, []))"
proof -
  have seeds: "\<forall>s\<in>set [Seed ''a'', Seed ''d'']. get_song_data (seed_name s) lower_catalog \<noteq> None"
    by (simp add: seeds_resolve_lower)
  from song_center_mean_then_scaled[OF fit_globals_lower _ seeds, of 3]
  show ?thesis
    by (simp add: fit_globals_lower seeds_resolve_lower del: select_songs.simps)
qed

section \<open>No seed, or a count that is not positive\<close>

lemma length_argsort: "length (argsort ds) = length ds"
  by (simp add: argsort_def)

lemma recommend_songs_no_seed:
  assumes "fit_globals data = Inr g"
  shows "recommend_songs [] data n g = (Inl ValueError, [])"
proof -
  have "get_mean_vector [] data = (Some [], [])"
    by (simp add: get_mean_vector_def np_mean_def)
  moreover have "scaled_normalized_song_center g [] = Inl ValueError"
    using fit_globals_shape(2)[OF assms]
    by (simp add: scaled_normalized_song_center_def mm_transform_def)
  ultimately show ?thesis by (simp add: recommend_songs_def)
qed

lemma recommend_songs_unbounded:
  assumes "n \<le> 0" and "int (length (scaled_normalized_data g)) < m"
  shows "recommend_songs seed_songs data n g = recommend_songs seed_songs data m g"
proof -
  have "select_songs (argsort distances) data seed_songs n [] =
        select_songs (argsort distances) data seed_songs m []"
    if "cdist center (scaled_normalized_data g) = Inr distances" for center distances
  proof -
    from that have "length distances = length (scaled_normalized_data g)"
      by (auto simp: cdist_def split: if_splits)
    with assms(2) have "int (length ([] :: song list)) + int (length (argsort distances)) < m"
      by (simp add: length_argsort)
    from select_songs_unbounded[OF assms(1) this] show ?thesis .
  qed
  then show ?thesis
    by (simp add: recommend_songs_def split: prod.splits option.splits sum.splits
        del: select_songs.simps)
qed

text \<open>
  C5, as the code has it. \<^verbatim>\<open>recommend_songs\<close> guards neither input; the button handler
  calls it with at least one seed and a count between 1 and 30. With no seed at all the
  call fails with ValueError: the mean of no rows is not a row of 15 values, and the range
  scaler rejects it. With a count that is not positive the selection never reaches the
  count, and the call does what it does for any count above the number of catalog rows.
\<close>

theorem no_seed_raises_and_count_unbounded:
  "(fit_globals data = Inr g \<longrightarrow> fst (recommend_songs [] data n g) = Inl ValueError) \<and>
   (n \<le> 0 \<and> int (length (scaled_normalized_data g)) < m \<longrightarrow>
      recommend_songs seed_songs data n g = recommend_songs seed_songs data m g)"
  using recommend_songs_no_seed[of data g n] recommend_songs_unbounded[of n g m seed_songs data]
  by simp

theorem no_seed_raises_and_count_unbounded_witness:
  "fit_globals lower_catalog = Inr example_globals \<and>
   fst (recommend_songs [] lower_catalog 0 example_globals) = Inl ValueError \<and>
   int (length (scaled_normalized_data example_globals)) < 5 \<and>
   get_song_data ''a'' lower_catalog = Some (track ''a'' 0 0 0) \<and>
   recommend_songs [Seed ''a''] lower_catalog 0 example_globals =
     recommend_songs [Seed ''a''] lower_catalog 5 example_globals \<and>
   fst (recommend_songs [Seed ''a''] lower_catalog 5 example_globals) =
     Inr [meta ''b'', meta ''c'', meta ''d'']"
proof -
  have len: "int (length (scaled_normalized_data example_globals)) < 5"
    by (simp add: example_globals_def)
  note inst = no_seed_raises_and_count_unbounded[of lower_catalog example_globals 0 5 "[Seed ''a'']"]
  from inst fit_globals_lower
  have a: "fst (recommend_songs [] lower_catalog 0 example_globals) = Inl ValueError" by blast
  from inst len
  have b: "recommend_songs [Seed ''a''] lower_catalog 0 example_globals =
     recommend_songs [Seed ''a''] lower_catalog 5 example_globals" by simp
  have c: "fst (recommend_songs [Seed ''a''] lower_catalog 5 example_globals) =
     Inr [meta ''b'', meta ''c'', meta ''d'']"
    by (simp add: b[symmetric] recommend_a_0)
  from a b c len fit_globals_lower seeds_resolve_lower(1) show ?thesis by blast
qed

text \<open>
  C5 as stated fails: without seeds the call does not return, and with the count 0 it
  returns every song but the seed.
\<close>

theorem no_seed_or_zero_count_counterexample:
  "fit_globals lower_catalog = Inr example_globals \<and>
   fst (recommend_songs [] lower_catalog 5 example_globals) = Inl ValueError \<and>
   get_song_data ''a'' lower_catalog = Some (track ''a'' 0 0 0) \<and>
   fst (recommend_songs [Seed ''a''] lower_catalog 0 example_globals) =
     Inr [meta ''b'', meta ''c'', meta ''d'']"
  by (simp add: fit_globals_lower recommend_no_seed seeds_resolve_lower recommend_a_0)

section \<open>A catalog without candidates\<close>

lemma select_songs_all_excluded:
  "\<forall>i\<in>set index. i < length data \<and> name (data ! i) \<in> set (map seed_name seed_songs) \<Longrightarrow>
   select_songs index data seed_songs n acc = Inr acc"
  by (induction index arbitrary: acc) auto

lemma recommend_songs_no_candidate:
  assumes "fit_globals data = Inr g" and "seed_songs \<noteq> []"
    and "\<forall>s\<in>set seed_songs. get_song_data (seed_name s) data \<noteq> None"
    and "\<forall>song\<in>set data. name song \<in> set (map seed_name seed_songs)"
  shows "fst (recommend_songs seed_songs data n g) = Inl KeyError"
proof -
  from recommend_songs_fitted[OF assms(1-3), of n] obtain center rec_songs where
    sel: "select_songs (argsort (map (euclidean center) (scaled_normalized_data g))) data seed_songs n []
        = Inr rec_songs" and
    r: "recommend_songs seed_songs data n g = (to_records rec_songs, [])" by blast
  have "\<forall>i\<in>set (argsort (map (euclidean center) (scaled_normalized_data g))).
      i < length data \<and> name (data ! i) \<in> set (map seed_name seed_songs)"
    using assms(4) fit_globals_shape(7)[OF assms(1)] by (simp add: set_argsort)
  from select_songs_all_excluded[OF this, of n "[]"] sel have "rec_songs = []" by simp
  then show ?thesis by (simp add: r to_records_def)
qed

text \<open>
  C8 fails on the code when nothing is available: every song of the catalog is a seed, the
  selection ends with no row, and building the records from no rows raises KeyError
  instead of returning the empty list.
\<close>

theorem no_candidate_raises_key_error:
  "fit_globals lower_catalog = Inr example_globals \<and>
   get_song_data ''a'' lower_catalog = Some (track ''a'' 0 0 0) \<and>
   get_song_data ''b'' lower_catalog = Some (track ''b'' 0 0 1) \<and>
   get_song_data ''c'' lower_catalog = Some (track ''c'' 1 1 0) \<and>
   get_song_data ''d'' lower_catalog = Some (track ''d'' 1 1 1) \<and>
   fst (recommend_songs [Seed ''a'', Seed ''b'', Seed ''c'', Seed ''d''] lower_catalog 10
          example_globals) = Inl KeyError"
  by (simp add: fit_globals_lower seeds_resolve_lower recommend_all)

section \<open>Repeating a call\<close>






text \<open>A call that prints: the warning is appended, and the result is the same again.\<close>

lemma repeated_call_with_warning:
  "call_recommend [Seed ''a'', Seed ''unknown-song''] 3
     \<lparr>catalog = lower_catalog, fitted = example_globals, stdout = []\<rparr> =
     (Inr [], \<lparr>catalog = lower_catalog, fitted = example_globals,
        stdout = [''Warning: unknown-song does not exist in the dataset'']\<rparr>) \<and>
   call_recommend [Seed ''a'', Seed ''unknown-song''] 3
     \<lparr>catalog = lower_catalog, fitted = example_globals,
        stdout = [''Warning: unknown-song does not exist in the dataset'']\<rparr> =
     (Inr [], \<lparr>catalog = lower_catalog, fitted = example_globals,
        stdout = [''Warning: unknown-song does not exist in the dataset'',
                  ''Warning: unknown-song does not exist in the dataset'']\<rparr>)"
  by (simp add: call_recommend_def recommend_songs_st_def get_mean_vector_st_def print_line_def
      lower_catalog_def lookup_eval)

end
